theory Spec2Isabelle
  imports Main "HOL-Library.AList"
begin

section \<open>Values\<close>

text \<open>
  The two source files are \<^verbatim>\<open>l_to_z3/atomic_predicate.py\<close> (atomic predicates, each
  owning a solver) and \<^verbatim>\<open>new_engine/predicate.py\<close> (combinators that return formulas).
  Both build z3 expressions. An expression is a syntax tree; \<open>App f s args\<close> is the
  application of a declared function, constructor or accessor \<open>f\<close> with range sort \<open>s\<close>.
\<close>

datatype z3sort = VariableSort | IdentifierSort | RuleSort | GraphSort | ActionSort | IntSort | BoolSort

datatype expr =
    IntNum int
  | BoolVal bool
  | Const string z3sort
  | FreshConst nat z3sort
  | App string z3sort "expr list"
  | AndE "expr list"
  | OrE "expr list"
  | NotE expr
  | ExistsE "expr list" expr

datatype error =
    ValueError string
  | AttributeError string
  | TypeError string
  | IndexError string
  | NotImplementedError string
  | Z3Exception string

datatype status = Sat | Unsat | Unknown

type_synonym z3model = "(expr \<times> expr) list"

text \<open>
  A z3 \<^verbatim>\<open>Solver\<close>: the formulas added so far, the result of the last \<^verbatim>\<open>check()\<close>, and the
  model that check left behind, if any.
\<close>

record solver =
  assertions :: "expr list"
  last_check :: "status option"
  last_model :: "z3model option"

text \<open>
  The decision procedure is z3's and is not part of the sources: it is a parameter. \<open>decide\<close>
  is the verdict of \<^verbatim>\<open>check()\<close> on the added formulas, \<open>find_model\<close> the model that check
  makes available to \<^verbatim>\<open>model()\<close>.
\<close>

record z3oracle =
  decide :: "expr list \<Rightarrow> status"
  find_model :: "expr list \<Rightarrow> z3model option"

text \<open>
  The graph-action pair comes from \<^verbatim>\<open>model.py\<close>, which is not among the sources. The
  atomic predicates only call its \<^verbatim>\<open>initialize(solver)\<close>, so that method is a parameter.
\<close>

record graphactionpair =
  initialize :: "solver \<Rightarrow> error + solver"

datatype aclass =
    Top | Bottom | Equal | Labeled
  | PreParent | PostParent | DoParent
  | PreLink | PostLink | DoLink | DoUnlink
  | PreHas | PostHas | Add | Rem

text \<open>
  Python values. An instance of an \<^verbatim>\<open>AtomicPredicate\<close> subclass is its class and its
  instance dictionary (the attributes assigned so far, latest first); an instance of a
  \<^verbatim>\<open>Predicate\<close> subclass is a constructor holding the fields its \<^verbatim>\<open>__init__\<close> assigns.
\<close>

datatype pyval =
    PyNone
  | PyBool bool
  | PyInt int
  | PyStr string
  | Z3 expr
  | Z3Func string "z3sort list" z3sort
  | PyFun "expr \<Rightarrow> error + pyval"
  | PyStatus status
  | PyModel z3model
  | PySolver solver
  | PyGap graphactionpair
  | Pred predicate
  | Atomic aclass "(string \<times> pyval) list"
and predicate =
    And "predicate list"
  | Not_p predicate
  | Or "predicate list"
  | ModelHasRule pyval pyval
  | PregraphHas pyval pyval
  | PostgraphHas pyval pyval
  | Top_p
  | Bottom_p

type_synonym attrs = "(string \<times> pyval) list"
type_synonym atom = "aclass \<times> attrs"

section \<open>The z3 interface used by the sources\<close>

fun sort_of :: "expr \<Rightarrow> z3sort" where
  "sort_of (IntNum n) = IntSort"
| "sort_of (BoolVal b) = BoolSort"
| "sort_of (Const x s) = s"
| "sort_of (FreshConst k s) = s"
| "sort_of (App f s args) = s"
| "sort_of (AndE es) = BoolSort"
| "sort_of (OrE es) = BoolSort"
| "sort_of (NotE e) = BoolSort"
| "sort_of (ExistsE vs e) = BoolSort"

fun children :: "expr \<Rightarrow> expr list" where
  "children (App f s args) = args"
| "children (AndE es) = es"
| "children (OrE es) = es"
| "children (NotE e) = [e]"
| "children (ExistsE vs e) = [e]"
| "children e = []"

text \<open>\<^verbatim>\<open>xs[0]\<close>: IndexError on an empty list.\<close>

definition index0 :: "'a list \<Rightarrow> error + 'a" where
  "index0 xs = (case xs of [] \<Rightarrow> Inl (IndexError ''list index out of range'') | x # _ \<Rightarrow> Inr x)"

text \<open>\<^verbatim>\<open>as_long()\<close> exists on integer numerals only.\<close>

definition as_long :: "expr \<Rightarrow> error + int" where
  "as_long e = (case e of IntNum n \<Rightarrow> Inr n | _ \<Rightarrow> Inl (AttributeError ''as_long''))"

text \<open>\<^verbatim>\<open>thing.sort()\<close>: only z3 expressions have the method.\<close>

definition sort_method :: "pyval \<Rightarrow> error + z3sort" where
  "sort_method thing = (case thing of Z3 e \<Rightarrow> Inr (sort_of e) | _ \<Rightarrow> Inl (AttributeError ''sort''))"

fun z3_args :: "pyval list \<Rightarrow> expr list option" where
  "z3_args [] = Some []"
| "z3_args (Z3 e # vs) = (case z3_args vs of None \<Rightarrow> None | Some es \<Rightarrow> Some (e # es))"
| "z3_args (v # vs) = None"

text \<open>
  A call \<open>f(args)\<close>: a z3 function declaration applied to expressions of its domain sorts
  builds an application; a Python function of one z3 value runs; anything else is not
  callable.
\<close>

definition call :: "pyval \<Rightarrow> pyval list \<Rightarrow> error + pyval" where
  "call f args =
     (case f of
        Z3Func name domain range_sort \<Rightarrow>
          (case z3_args args of
             None \<Rightarrow> Inl (Z3Exception ''Z3 expression expected'')
           | Some es \<Rightarrow>
               if map sort_of es = domain then Inr (Z3 (App name range_sort es))
               else Inl (Z3Exception ''sort mismatch''))
      | PyFun g \<Rightarrow>
          (case args of
             [Z3 e] \<Rightarrow> g e
           | _ \<Rightarrow> Inl (TypeError ''wrong arguments for function''))
      | _ \<Rightarrow> Inl (TypeError ''object is not callable''))"

text \<open>Boolean arguments of \<^verbatim>\<open>z3.And\<close>, \<^verbatim>\<open>z3.Or\<close>, \<^verbatim>\<open>z3.Not\<close> and \<^verbatim>\<open>Solver.add\<close>: a Python
  bool becomes a z3 literal, a Bool-sorted expression stays, anything else is refused.\<close>

definition to_bool_expr :: "pyval \<Rightarrow> error + expr" where
  "to_bool_expr v =
     (case v of
        PyBool b \<Rightarrow> Inr (BoolVal b)
      | Z3 e \<Rightarrow> if sort_of e = BoolSort then Inr e
                else Inl (Z3Exception ''Z3 Boolean expression expected'')
      | _ \<Rightarrow> Inl (Z3Exception ''True, False or Z3 Boolean expression expected''))"

fun to_bool_exprs :: "pyval list \<Rightarrow> error + expr list" where
  "to_bool_exprs [] = Inr []"
| "to_bool_exprs (v # vs) =
     (case to_bool_expr v of
        Inl e \<Rightarrow> Inl e
      | Inr f \<Rightarrow> (case to_bool_exprs vs of Inl e \<Rightarrow> Inl e | Inr fs \<Rightarrow> Inr (f # fs)))"

definition z3_And :: "pyval list \<Rightarrow> error + expr" where
  "z3_And args = (case to_bool_exprs args of Inl e \<Rightarrow> Inl e | Inr fs \<Rightarrow> Inr (AndE fs))"

definition z3_Or :: "pyval list \<Rightarrow> error + expr" where
  "z3_Or args = (case to_bool_exprs args of Inl e \<Rightarrow> Inl e | Inr fs \<Rightarrow> Inr (OrE fs))"

definition z3_Not :: "pyval \<Rightarrow> error + expr" where
  "z3_Not a = (case to_bool_expr a of Inl e \<Rightarrow> Inl e | Inr f \<Rightarrow> Inr (NotE f))"

definition z3_Exists :: "expr list \<Rightarrow> pyval \<Rightarrow> error + expr" where
  "z3_Exists vs body = (case to_bool_expr body of Inl e \<Rightarrow> Inl e | Inr f \<Rightarrow> Inr (ExistsE vs f))"

text \<open>\<^verbatim>\<open>Solver()\<close>, \<^verbatim>\<open>add\<close>, \<^verbatim>\<open>check\<close> and \<^verbatim>\<open>model\<close>.\<close>

definition Solver :: solver where
  "Solver = \<lparr>assertions = [], last_check = None, last_model = None\<rparr>"

definition solver_add :: "pyval \<Rightarrow> solver \<Rightarrow> error + solver" where
  "solver_add v s =
     (case to_bool_expr v of
        Inl e \<Rightarrow> Inl e
      | Inr f \<Rightarrow> Inr (s\<lparr>assertions := assertions s @ [f]\<rparr>))"

definition solver_check :: "z3oracle \<Rightarrow> solver \<Rightarrow> status \<times> solver" where
  "solver_check orc s =
     (decide orc (assertions s),
      s\<lparr>last_check := Some (decide orc (assertions s)),
        last_model := find_model orc (assertions s)\<rparr>)"

definition solver_model :: "solver \<Rightarrow> error + z3model" where
  "solver_model s =
     (case last_model s of
        None \<Rightarrow> Inl (Z3Exception ''model is not available'')
      | Some m \<Rightarrow> Inr m)"

section \<open>atomic_predicate.py\<close>

subsection \<open>Instance attributes\<close>

text \<open>
  \<^verbatim>\<open>self.name\<close> reads the instance dictionary and raises AttributeError when the name was
  never assigned; \<^verbatim>\<open>self.name = v\<close> stores the value. (Methods are looked up on the class
  and are modelled as functions of their own.)
\<close>

definition getattr :: "attrs \<Rightarrow> string \<Rightarrow> error + pyval" where
  "getattr self name =
     (case map_of self name of None \<Rightarrow> Inl (AttributeError name) | Some v \<Rightarrow> Inr v)"

definition setattr :: "attrs \<Rightarrow> string \<Rightarrow> pyval \<Rightarrow> attrs" where
  "setattr self name v = AList.update name v self"

text \<open>Python truthiness, as \<^verbatim>\<open>not self._asserted_yet\<close> reads it.\<close>

fun truthy :: "pyval \<Rightarrow> bool" where
  "truthy PyNone = False"
| "truthy (PyBool b) = b"
| "truthy (PyInt n) = (n \<noteq> 0)"
| "truthy (PyStr s) = (s \<noteq> [])"
| "truthy v = True"

subsection \<open>Module level\<close>

text \<open>
  \<^verbatim>\<open>Variable\<close> is a z3 datatype with the constructor \<^verbatim>\<open>variable\<close> and the accessor
  \<^verbatim>\<open>get_varname\<close>. \<^verbatim>\<open>Identifier.label\<close> and the action constructors are accessors of
  \<^verbatim>\<open>model.py\<close>, known here only by their names.
\<close>

definition variable :: "int \<Rightarrow> expr" where
  "variable n = App ''variable'' VariableSort [IntNum n]"

definition Variable_get_varname :: pyval where
  "Variable_get_varname = Z3Func ''get_varname'' [VariableSort] IntSort"

definition Identifier_label :: pyval where
  "Identifier_label = Z3Func ''label'' [IdentifierSort] IntSort"

definition AtomicAction :: "string \<Rightarrow> pyval" where
  "AtomicAction name = Z3Func name [IdentifierSort, IdentifierSort] ActionSort"

text \<open>
  \<^verbatim>\<open>z3_accessor(func, item)\<close> is
  \<^verbatim>\<open>func(item).children()[0].children()[0].as_long()\<close>.
\<close>

definition z3_accessor :: "pyval \<Rightarrow> pyval \<Rightarrow> error + int" where
  "z3_accessor func item =
     (case call func [item] of
        Inl e \<Rightarrow> Inl e
      | Inr (Z3 applied) \<Rightarrow>
          (case index0 (children applied) of
             Inl e \<Rightarrow> Inl e
           | Inr c \<Rightarrow>
               (case index0 (children c) of
                  Inl e \<Rightarrow> Inl e
                | Inr d \<Rightarrow> as_long d))
      | Inr _ \<Rightarrow> Inl (AttributeError ''children''))"

text \<open>
  \<^verbatim>\<open>ensure_variable(thing)\<close>: \<^verbatim>\<open>assert thing.sort() == Variable\<close>, with AttributeError and
  AssertionError turned into ValueError.
\<close>

definition ensure_variable :: "pyval \<Rightarrow> error + unit" where
  "ensure_variable thing =
     (case sort_method thing of
        Inr s \<Rightarrow>
          if s = VariableSort then Inr ()
          else Inl (ValueError ''Arguments must be z3 instances of Variable.'')
      | Inl (AttributeError _) \<Rightarrow> Inl (ValueError ''Arguments must be z3 instances of Variable.'')
      | Inl e \<Rightarrow> Inl e)"

definition ensure_atomic_predicate :: "pyval \<Rightarrow> error + unit" where
  "ensure_atomic_predicate thing =
     (case thing of
        Atomic c d \<Rightarrow> Inr ()
      | _ \<Rightarrow> Inl (ValueError ''Arguments must be instances of AtomicPredicate.''))"

subsection \<open>Constructors\<close>

text \<open>
  \<^verbatim>\<open>AtomicPredicate.__init__(self, graphactionpair)\<close>: creates the solver, stores the pair,
  declares the interpretation, clears the two memo fields and lets the pair initialize
  the solver (which it mutates in place). Any other number of arguments is a TypeError.
\<close>

definition AtomicPredicate_init :: "attrs \<Rightarrow> pyval list \<Rightarrow> error + attrs" where
  "AtomicPredicate_init self0 args =
     (case args of
        [graphactionpair] \<Rightarrow>
          (let self1 = setattr self0 ''solver'' (PySolver Solver);
               self2 = setattr self1 ''graphactionpair'' graphactionpair;
               self3 = setattr self2 ''interpretation''
                         (Z3Func ''interpretation'' [VariableSort] IdentifierSort);
               self4 = setattr self3 ''_asserted_yet'' (PyBool False);
               self5 = setattr self4 ''_status'' PyNone
           in case graphactionpair of
                PyGap g \<Rightarrow>
                  (case initialize g Solver of
                     Inl e \<Rightarrow> Inl e
                   | Inr s \<Rightarrow> Inr (setattr self5 ''solver'' (PySolver s)))
              | _ \<Rightarrow> Inl (AttributeError ''initialize''))
      | _ \<Rightarrow> Inl (TypeError ''__init__() takes exactly 2 arguments''))"

text \<open>
  \<^verbatim>\<open>__init__(self, x, y, *args)\<close>, the same body in Equal, PreParent, PostParent, DoParent,
  PreLink, PostLink, DoLink and DoUnlink: the base class runs first, then both
  arguments are checked, then stored.
\<close>

definition init_x_y :: "pyval list \<Rightarrow> error + attrs" where
  "init_x_y all_args =
     (case all_args of
        x # y # args \<Rightarrow>
          (case AtomicPredicate_init [] args of
             Inl e \<Rightarrow> Inl e
           | Inr self \<Rightarrow>
               (case ensure_variable x of
                  Inl e \<Rightarrow> Inl e
                | Inr _ \<Rightarrow>
                    (case ensure_variable y of
                       Inl e \<Rightarrow> Inl e
                     | Inr _ \<Rightarrow> Inr (setattr (setattr self ''x'' x) ''y'' y))))
      | _ \<Rightarrow> Inl (TypeError ''__init__() takes at least 3 arguments''))"

text \<open>\<^verbatim>\<open>Labeled.__init__(self, x, label, *args)\<close>: only \<open>x\<close> is checked.\<close>

definition Labeled_init :: "pyval list \<Rightarrow> error + attrs" where
  "Labeled_init all_args =
     (case all_args of
        x # label # args \<Rightarrow>
          (case AtomicPredicate_init [] args of
             Inl e \<Rightarrow> Inl e
           | Inr self \<Rightarrow>
               (case ensure_variable x of
                  Inl e \<Rightarrow> Inl e
                | Inr _ \<Rightarrow> Inr (setattr (setattr self ''label'' label) ''x'' x)))
      | _ \<Rightarrow> Inl (TypeError ''__init__() takes at least 3 arguments''))"

text \<open>\<^verbatim>\<open>__init__(self, x, *args)\<close> of PreHas and PostHas.\<close>

definition init_x :: "pyval list \<Rightarrow> error + attrs" where
  "init_x all_args =
     (case all_args of
        x # args \<Rightarrow>
          (case AtomicPredicate_init [] args of
             Inl e \<Rightarrow> Inl e
           | Inr self \<Rightarrow>
               (case ensure_variable x of
                  Inl e \<Rightarrow> Inl e
                | Inr _ \<Rightarrow> Inr (setattr self ''x'' x)))
      | _ \<Rightarrow> Inl (TypeError ''__init__() takes at least 2 arguments''))"

text \<open>Which \<^verbatim>\<open>__init__\<close> a class has; Top, Bottom, Add and Rem inherit the base one.\<close>

fun class_init :: "aclass \<Rightarrow> pyval list \<Rightarrow> error + attrs" where
  "class_init Top args = AtomicPredicate_init [] args"
| "class_init Bottom args = AtomicPredicate_init [] args"
| "class_init Add args = AtomicPredicate_init [] args"
| "class_init Rem args = AtomicPredicate_init [] args"
| "class_init Labeled args = Labeled_init args"
| "class_init PreHas args = init_x args"
| "class_init PostHas args = init_x args"
| "class_init c args = init_x_y args"

text \<open>The constructor call \<^verbatim>\<open>Class(*args)\<close>.\<close>

definition construct :: "aclass \<Rightarrow> pyval list \<Rightarrow> error + atom" where
  "construct c args = (case class_init c args of Inl e \<Rightarrow> Inl e | Inr self \<Rightarrow> Inr (c, self))"

subsection \<open>Compilation: get_predicate\<close>

text \<open>\<^verbatim>\<open>self.interpretation(self.name)\<close>, for each name in turn.\<close>

definition interpretation_of :: "attrs \<Rightarrow> string \<Rightarrow> error + pyval" where
  "interpretation_of self name =
     (case getattr self ''interpretation'' of
        Inl e \<Rightarrow> Inl e
      | Inr f \<Rightarrow> (case getattr self name of Inl e \<Rightarrow> Inl e | Inr v \<Rightarrow> call f [v]))"

fun interpretations :: "attrs \<Rightarrow> string list \<Rightarrow> error + pyval list" where
  "interpretations self [] = Inr []"
| "interpretations self (name # names) =
     (case interpretation_of self name of
        Inl e \<Rightarrow> Inl e
      | Inr v \<Rightarrow>
          (case interpretations self names of Inl e \<Rightarrow> Inl e | Inr vs \<Rightarrow> Inr (v # vs)))"

text \<open>
  Modelled from the spec: the graph/action model of \<^verbatim>\<open>model.py\<close>, which is not among the
  sources. Its pregraph and postgraph each offer \<^verbatim>\<open>has(id)\<close>, \<^verbatim>\<open>parents(id, id)\<close> and
  \<^verbatim>\<open>links(id, id)\<close>, its action offers \<^verbatim>\<open>has(effect)\<close>; each is a relation of the solver,
  named here \<open>component.relation\<close>.
\<close>

definition model_relation :: "pyval \<Rightarrow> string \<Rightarrow> string \<Rightarrow> error + pyval" where
  "model_relation m component relation =
     (case m of
        PyGap g \<Rightarrow>
          Inr (Z3Func (component @ ''.'' @ relation)
                 (if component = ''action'' then [ActionSort]
                  else if relation = ''has'' then [IdentifierSort]
                  else [IdentifierSort, IdentifierSort])
                 BoolSort)
      | _ \<Rightarrow> Inl (AttributeError component))"

text \<open>
  \<^verbatim>\<open>self.model.component.relation(self.interpretation(self.x), ...)\<close>: Python evaluates the
  callee \<^verbatim>\<open>self.model.component.relation\<close> first, then the arguments, then calls.
\<close>

definition graph_leaf :: "attrs \<Rightarrow> string \<Rightarrow> string \<Rightarrow> string list \<Rightarrow> error + pyval" where
  "graph_leaf self component relation names =
     (case getattr self ''model'' of
        Inl e \<Rightarrow> Inl e
      | Inr m \<Rightarrow>
          (case model_relation m component relation of
             Inl e \<Rightarrow> Inl e
           | Inr rel \<Rightarrow>
               (case interpretations self names of
                  Inl e \<Rightarrow> Inl e
                | Inr args \<Rightarrow> call rel args)))"

text \<open>
  \<^verbatim>\<open>self.model.action.has(AtomicAction.effect(self.interpretation(self.x),
  self.interpretation(self.y)))\<close>.
\<close>

definition action_leaf :: "attrs \<Rightarrow> string \<Rightarrow> error + pyval" where
  "action_leaf self effect =
     (case getattr self ''model'' of
        Inl e \<Rightarrow> Inl e
      | Inr m \<Rightarrow>
          (case model_relation m ''action'' ''has'' of
             Inl e \<Rightarrow> Inl e
           | Inr has \<Rightarrow>
               (case interpretations self [''x'', ''y''] of
                  Inl e \<Rightarrow> Inl e
                | Inr args \<Rightarrow>
                    (case call (AtomicAction effect) args of
                       Inl e \<Rightarrow> Inl e
                     | Inr performed \<Rightarrow> call has [performed]))))"

text \<open>\<^verbatim>\<open>n == label\<close> for a Python integer \<open>n\<close>: a z3 operand turns the comparison into a
  z3 equation, an integer or bool compares by value, anything else is unequal.\<close>

definition int_eq :: "int \<Rightarrow> pyval \<Rightarrow> pyval" where
  "int_eq n v =
     (case v of
        PyInt k \<Rightarrow> PyBool (n = k)
      | PyBool b \<Rightarrow> PyBool (n = (if b then 1 else 0))
      | Z3 e \<Rightarrow> Z3 (App ''='' BoolSort [e, IntNum n])
      | _ \<Rightarrow> PyBool False)"

text \<open>
  \<^verbatim>\<open>get_predicate\<close>, one equation per class; Add and Rem inherit the base method, which
  raises NotImplementedError.
\<close>

fun get_predicate :: "atom \<Rightarrow> error + pyval" where
  "get_predicate (Top, self) = Inr (PyBool True)"
| "get_predicate (Bottom, self) = Inr (PyBool False)"
| "get_predicate (Equal, self) =
     (case getattr self ''x'' of
        Inl e \<Rightarrow> Inl e
      | Inr x \<Rightarrow>
          (case z3_accessor Variable_get_varname x of
             Inl e \<Rightarrow> Inl e
           | Inr a \<Rightarrow>
               (case getattr self ''y'' of
                  Inl e \<Rightarrow> Inl e
                | Inr y \<Rightarrow>
                    (case z3_accessor Variable_get_varname y of
                       Inl e \<Rightarrow> Inl e
                     | Inr b \<Rightarrow> Inr (PyBool (a = b))))))"
| "get_predicate (Labeled, self) =
     (case interpretation_of self ''x'' of
        Inl e \<Rightarrow> Inl e
      | Inr ix \<Rightarrow>
          (case z3_accessor Identifier_label ix of
             Inl e \<Rightarrow> Inl e
           | Inr a \<Rightarrow>
               (case getattr self ''label'' of
                  Inl e \<Rightarrow> Inl e
                | Inr label \<Rightarrow> Inr (int_eq a label))))"
| "get_predicate (PreParent, self) = graph_leaf self ''pregraph'' ''parents'' [''x'', ''y'']"
| "get_predicate (PostParent, self) = graph_leaf self ''postgraph'' ''parents'' [''x'', ''y'']"
| "get_predicate (DoParent, self) = action_leaf self ''parent_action''"
| "get_predicate (PreLink, self) = graph_leaf self ''pregraph'' ''links'' [''x'', ''y'']"
| "get_predicate (PostLink, self) = graph_leaf self ''postgraph'' ''links'' [''x'', ''y'']"
| "get_predicate (DoLink, self) = action_leaf self ''link_action''"
| "get_predicate (DoUnlink, self) = action_leaf self ''unlink_action''"
| "get_predicate (PreHas, self) = graph_leaf self ''pregraph'' ''has'' [''x'']"
| "get_predicate (PostHas, self) = graph_leaf self ''postgraph'' ''has'' [''x'']"
| "get_predicate (Add, self) = Inl (NotImplementedError ''Implement get_predicate in subclasses.'')"
| "get_predicate (Rem, self) = Inl (NotImplementedError ''Implement get_predicate in subclasses.'')"

subsection \<open>The evaluator operations\<close>

text \<open>\<^verbatim>\<open>obj.add\<close>, \<^verbatim>\<open>obj.check\<close>: the bound method of a solver; no other value has one.\<close>

definition method_of_solver :: "pyval \<Rightarrow> string \<Rightarrow> error + solver" where
  "method_of_solver sv name = (case sv of PySolver s \<Rightarrow> Inr s | _ \<Rightarrow> Inl (AttributeError name))"

text \<open>
  \<^verbatim>\<open>_assert_over\<close>: add the compiled predicate to the solver, check, store the status and
  set the flag. Each operation returns its result and the object as it is afterwards,
  also when it raises. The callee \<^verbatim>\<open>self.solver.add\<close> is evaluated before its argument
  \<^verbatim>\<open>self.get_predicate()\<close>; the solver is one object, mutated in place by \<^verbatim>\<open>add\<close> and
  \<^verbatim>\<open>check\<close>.
\<close>

definition assert_over :: "z3oracle \<Rightarrow> atom \<Rightarrow> (error + unit) \<times> atom" where
  "assert_over orc a =
     (case getattr (snd a) ''solver'' of
        Inl e \<Rightarrow> (Inl e, a)
      | Inr sv \<Rightarrow>
          (case method_of_solver sv ''add'' of
             Inl e \<Rightarrow> (Inl e, a)
           | Inr s \<Rightarrow>
               (case get_predicate a of
                  Inl e \<Rightarrow> (Inl e, a)
                | Inr p \<Rightarrow>
                    (case solver_add p s of
                       Inl e \<Rightarrow> (Inl e, a)
                     | Inr s1 \<Rightarrow>
                         (let (st, s2) = solver_check orc s1;
                              self1 = setattr (snd a) ''solver'' (PySolver s2);
                              self2 = setattr self1 ''_status'' (PyStatus st);
                              self3 = setattr self2 ''_asserted_yet'' (PyBool True)
                          in (Inr (), (fst a, self3)))))))"

text \<open>\<^verbatim>\<open>check_sat\<close> (DEBUG is False, so nothing is printed).\<close>

definition check_sat :: "z3oracle \<Rightarrow> atom \<Rightarrow> (error + pyval) \<times> atom" where
  "check_sat orc a =
     (case getattr (snd a) ''_asserted_yet'' of
        Inl e \<Rightarrow> (Inl e, a)
      | Inr flag \<Rightarrow>
          (case (if \<not> truthy flag then assert_over orc a else (Inr (), a)) of
             (Inl e, a1) \<Rightarrow> (Inl e, a1)
           | (Inr _, a1) \<Rightarrow> (getattr (snd a1) ''_status'', a1)))"

text \<open>\<^verbatim>\<open>self.solver.model()\<close>.\<close>

definition method_model :: "pyval \<Rightarrow> error + pyval" where
  "method_model sv =
     (case sv of
        PySolver s \<Rightarrow> (case solver_model s of Inl e \<Rightarrow> Inl e | Inr m \<Rightarrow> Inr (PyModel m))
      | _ \<Rightarrow> Inl (AttributeError ''model''))"

text \<open>\<^verbatim>\<open>get_model\<close>: there is no test of \<^verbatim>\<open>self._status\<close>; the solver decides.\<close>

definition get_model :: "z3oracle \<Rightarrow> atom \<Rightarrow> (error + pyval) \<times> atom" where
  "get_model orc a =
     (case getattr (snd a) ''_asserted_yet'' of
        Inl e \<Rightarrow> (Inl e, a)
      | Inr flag \<Rightarrow>
          (case (if \<not> truthy flag then assert_over orc a else (Inr (), a)) of
             (Inl e, a1) \<Rightarrow> (Inl e, a1)
           | (Inr _, a1) \<Rightarrow>
               (case getattr (snd a1) ''solver'' of
                  Inl e \<Rightarrow> (Inl e, a1)
                | Inr sv \<Rightarrow> (method_model sv, a1))))"

section \<open>predicate.py\<close>

subsection \<open>Constructors\<close>

text \<open>
  \<^verbatim>\<open>_ensure_predicate(thing)\<close> raises ValueError unless \<open>thing\<close> is an instance of
  \<^verbatim>\<open>Predicate\<close> (the message ends with \<^verbatim>\<open>repr(thing)\<close>, left out here). An instance of
  \<^verbatim>\<open>AtomicPredicate\<close> is not one: that class derives from \<^verbatim>\<open>object\<close>.
\<close>

definition ensure_predicate :: "pyval \<Rightarrow> error + predicate" where
  "ensure_predicate thing =
     (case thing of
        Pred p \<Rightarrow> Inr p
      | _ \<Rightarrow> Inl (ValueError ''Argument must be instance of Predicate.''))"

text \<open>\<^verbatim>\<open>for pred in preds: _ensure_predicate(pred)\<close>.\<close>

fun ensure_predicates :: "pyval list \<Rightarrow> error + predicate list" where
  "ensure_predicates [] = Inr []"
| "ensure_predicates (pred # preds) =
     (case ensure_predicate pred of
        Inl e \<Rightarrow> Inl e
      | Inr p \<Rightarrow>
          (case ensure_predicates preds of Inl e \<Rightarrow> Inl e | Inr ps \<Rightarrow> Inr (p # ps)))"

definition And_init :: "pyval list \<Rightarrow> error + predicate" where
  "And_init preds = (case ensure_predicates preds of Inl e \<Rightarrow> Inl e | Inr ps \<Rightarrow> Inr (And ps))"

definition Not_init :: "pyval \<Rightarrow> error + predicate" where
  "Not_init pred = (case ensure_predicate pred of Inl e \<Rightarrow> Inl e | Inr p \<Rightarrow> Inr (Not_p p))"

definition Or_init :: "pyval list \<Rightarrow> error + predicate" where
  "Or_init preds = (case ensure_predicates preds of Inl e \<Rightarrow> Inl e | Inr ps \<Rightarrow> Inr (Or ps))"

text \<open>The remaining constructors store their arguments as they come.\<close>

definition ModelHasRule_init :: "pyval \<Rightarrow> error + predicate" where
  "ModelHasRule_init rule_function = Inr (ModelHasRule rule_function PyNone)"

definition PregraphHas_init :: "pyval \<Rightarrow> pyval \<Rightarrow> error + predicate" where
  "PregraphHas_init rule structure = Inr (PregraphHas rule structure)"

definition PostgraphHas_init :: "pyval \<Rightarrow> pyval \<Rightarrow> error + predicate" where
  "PostgraphHas_init rule structure = Inr (PostgraphHas rule structure)"

definition Top_init :: "error + predicate" where
  "Top_init = Inr Top_p"

definition Bottom_init :: "error + predicate" where
  "Bottom_init = Inr Bottom_p"

subsection \<open>Compilation: _assert\<close>

text \<open>
  Modelled from the spec: \<^verbatim>\<open>datatypes.py\<close> is not among the sources. \<^verbatim>\<open>new_rule()\<close> gives
  a Rule constant that was never given before, from a module-level counter that only
  grows; \<^verbatim>\<open>Rule.pregraph\<close> and \<^verbatim>\<open>Rule.postgraph\<close> are the accessors of a rule's two graphs.
\<close>

definition new_rule :: "nat \<Rightarrow> expr \<times> nat" where
  "new_rule counter = (FreshConst counter RuleSort, Suc counter)"

definition Rule_pregraph :: pyval where
  "Rule_pregraph = Z3Func ''pregraph'' [RuleSort] GraphSort"

definition Rule_postgraph :: pyval where
  "Rule_postgraph = Z3Func ''postgraph'' [RuleSort] GraphSort"

text \<open>
  A method call \<^verbatim>\<open>obj._assert(args)\<close>: the attribute is looked up (only instances of
  \<^verbatim>\<open>Predicate\<close> have it), then the arguments are bound to the parameters
  \<^verbatim>\<open>(model, string_interner, node_interner)\<close> that every \<^verbatim>\<open>_assert\<close> of the file declares;
  any other number of arguments is a TypeError, raised before the body runs.
\<close>

definition lookup_assert :: "pyval \<Rightarrow> error + predicate" where
  "lookup_assert obj = (case obj of Pred p \<Rightarrow> Inr p | _ \<Rightarrow> Inl (AttributeError ''_assert''))"

fun bind_assert_args :: "pyval list \<Rightarrow> error + pyval \<times> pyval \<times> pyval" where
  "bind_assert_args [model, string_interner, node_interner] =
     Inr (model, string_interner, node_interner)"
| "bind_assert_args args = Inl (TypeError ''_assert() takes exactly 4 arguments'')"

text \<open>
  \<^verbatim>\<open>_assert\<close>, one equation per class. The result is the formula or the exception, the
  node as it is afterwards (ModelHasRule assigns its \<^verbatim>\<open>rule_variable\<close>), and the rule
  counter. The generator under \<^verbatim>\<open>z3.And(*(...))\<close> compiles the sub-predicates in order
  and stops at the first exception. A node object that occurs at two places of a tree is
  written at both; the one assignment compilation makes, to \<^verbatim>\<open>rule_variable\<close>, then shows at
  the occurrence being compiled.
\<close>

fun Predicate_assert ::
    "predicate \<Rightarrow> pyval \<Rightarrow> pyval \<Rightarrow> pyval \<Rightarrow> nat \<Rightarrow> (error + expr) \<times> predicate \<times> nat"
  and assert_each ::
    "predicate list \<Rightarrow> pyval \<Rightarrow> pyval \<Rightarrow> pyval \<Rightarrow> nat \<Rightarrow> (error + pyval list) \<times> predicate list \<times> nat"
where
  "Predicate_assert (And preds) model string_interner node_interner k =
     (case assert_each preds model string_interner node_interner k of
        (Inl e, preds1, k1) \<Rightarrow> (Inl e, And preds1, k1)
      | (Inr fs, preds1, k1) \<Rightarrow> (z3_And fs, And preds1, k1))"
| "Predicate_assert (Not_p pred) model string_interner node_interner k =
     (case Predicate_assert pred model string_interner node_interner k of
        (Inl e, pred1, k1) \<Rightarrow> (Inl e, Not_p pred1, k1)
      | (Inr f, pred1, k1) \<Rightarrow> (z3_Not (Z3 f), Not_p pred1, k1))"
| "Predicate_assert (Or preds) model string_interner node_interner k =
     (case assert_each preds model string_interner node_interner k of
        (Inl e, preds1, k1) \<Rightarrow> (Inl e, Or preds1, k1)
      | (Inr fs, preds1, k1) \<Rightarrow> (z3_Or fs, Or preds1, k1))"
| "Predicate_assert (ModelHasRule rule_function rule_variable) model string_interner node_interner k =
     (let rv = fst (new_rule k);
          k1 = snd (new_rule k);
          self1 = ModelHasRule rule_function (Z3 rv)
      in case call model [Z3 rv] of
           Inl e \<Rightarrow> (Inl e, self1, k1)
         | Inr in_model \<Rightarrow>
             (case call rule_function [Z3 rv] of
                Inl e \<Rightarrow> (Inl e, self1, k1)
              | Inr made \<Rightarrow>
                  (case lookup_assert made of
                     Inl e \<Rightarrow> (Inl e, self1, k1)
                   | Inr p \<Rightarrow>
                       (case bind_assert_args [model] of
                          Inl e \<Rightarrow> (Inl e, self1, k1)
                        | Inr (m, s, i) \<Rightarrow>
                            (case Predicate_assert p m s i k1 of
                               (Inl e, p1, k2) \<Rightarrow> (Inl e, self1, k2)
                             | (Inr body, p1, k2) \<Rightarrow>
                                 (case z3_And [in_model, Z3 body] of
                                    Inl e \<Rightarrow> (Inl e, self1, k2)
                                  | Inr both \<Rightarrow> (z3_Exists [rv] (Z3 both), self1, k2)))))))"
| "Predicate_assert (PregraphHas rule structure) model string_interner node_interner k =
     (case lookup_assert structure of
        Inl e \<Rightarrow> (Inl e, PregraphHas rule structure, k)
      | Inr p \<Rightarrow>
          (case call Rule_pregraph [rule] of
             Inl e \<Rightarrow> (Inl e, PregraphHas rule structure, k)
           | Inr graph \<Rightarrow>
               (case bind_assert_args [graph] of
                  Inl e \<Rightarrow> (Inl e, PregraphHas rule structure, k)
                | Inr (m, s, i) \<Rightarrow>
                    (case Predicate_assert p m s i k of
                       (r, p1, k1) \<Rightarrow> (r, PregraphHas rule (Pred p1), k1)))))"
| "Predicate_assert (PostgraphHas rule structure) model string_interner node_interner k =
     (case lookup_assert structure of
        Inl e \<Rightarrow> (Inl e, PostgraphHas rule structure, k)
      | Inr p \<Rightarrow>
          (case call Rule_postgraph [rule] of
             Inl e \<Rightarrow> (Inl e, PostgraphHas rule structure, k)
           | Inr graph \<Rightarrow>
               (case bind_assert_args [graph] of
                  Inl e \<Rightarrow> (Inl e, PostgraphHas rule structure, k)
                | Inr (m, s, i) \<Rightarrow>
                    (case Predicate_assert p m s i k of
                       (r, p1, k1) \<Rightarrow> (r, PostgraphHas rule (Pred p1), k1)))))"
| "Predicate_assert Top_p model string_interner node_interner k =
     (z3_Or [PyBool True], Top_p, k)"
| "Predicate_assert Bottom_p model string_interner node_interner k =
     (z3_And [PyBool False], Bottom_p, k)"
| "assert_each [] model string_interner node_interner k = (Inr [], [], k)"
| "assert_each (p # ps) model string_interner node_interner k =
     (case Predicate_assert p model string_interner node_interner k of
        (Inl e, p1, k1) \<Rightarrow> (Inl e, p1 # ps, k1)
      | (Inr f, p1, k1) \<Rightarrow>
          (case assert_each ps model string_interner node_interner k1 of
             (Inl e, ps1, k2) \<Rightarrow> (Inl e, p1 # ps1, k2)
           | (Inr fs, ps1, k2) \<Rightarrow> (Inr (Z3 f # fs), p1 # ps1, k2)))"

text \<open>\<^verbatim>\<open>Predicate.get_predicate\<close> passes its three arguments on to \<^verbatim>\<open>_assert\<close>.\<close>

definition Predicate_get_predicate ::
    "predicate \<Rightarrow> pyval \<Rightarrow> pyval \<Rightarrow> pyval \<Rightarrow> nat \<Rightarrow> (error + expr) \<times> predicate \<times> nat" where
  "Predicate_get_predicate self model_variable string_interner node_interner k =
     Predicate_assert self model_variable string_interner node_interner k"

section \<open>Vocabulary of the properties\<close>

subsection \<open>Observations on an atomic predicate\<close>

text \<open>The evaluator is asserted when its \<^verbatim>\<open>_asserted_yet\<close> flag is set and true.\<close>

definition asserted_yet :: "atom \<Rightarrow> bool" where
  "asserted_yet a = (case getattr (snd a) ''_asserted_yet'' of Inl e \<Rightarrow> False | Inr v \<Rightarrow> truthy v)"

text \<open>
  The state in which a constructor leaves the attributes of the base class: the solver
  is the fresh one as the pair's \<^verbatim>\<open>initialize\<close> left it, both memo fields are clear, and
  no attribute \<^verbatim>\<open>model\<close> exists.
\<close>

definition fresh_object :: "attrs \<Rightarrow> graphactionpair \<Rightarrow> solver \<Rightarrow> bool" where
  "fresh_object self g s =
     (initialize g Solver = Inr s \<and>
      getattr self ''solver'' = Inr (PySolver s) \<and>
      getattr self ''graphactionpair'' = Inr (PyGap g) \<and>
      getattr self ''interpretation'' =
        Inr (Z3Func ''interpretation'' [VariableSort] IdentifierSort) \<and>
      getattr self ''_asserted_yet'' = Inr (PyBool False) \<and>
      getattr self ''_status'' = Inr PyNone \<and>
      getattr self ''model'' = Inl (AttributeError ''model''))"

text \<open>A value is Variable-sorted when it is a z3 expression whose sort is \<^verbatim>\<open>Variable\<close>.\<close>

definition is_variable :: "pyval \<Rightarrow> bool" where
  "is_variable v = (case v of Z3 e \<Rightarrow> sort_of e = VariableSort | _ \<Rightarrow> False)"

text \<open>The eight classes whose constructor is \<^verbatim>\<open>__init__(self, x, y, *args)\<close>.\<close>

definition two_variable_classes :: "aclass list" where
  "two_variable_classes =
     [Equal, PreParent, PostParent, DoParent, PreLink, PostLink, DoLink, DoUnlink]"

text \<open>
  How a constructor call with an ill-sorted Variable argument ends: with the exception of
  the base-class constructor when that one raises (it runs first), and otherwise with the
  ValueError of \<^verbatim>\<open>ensure_variable\<close>.
\<close>

definition rejected :: "error + atom \<Rightarrow> error + attrs \<Rightarrow> bool" where
  "rejected made base =
     (case base of
        Inl e \<Rightarrow> made = Inl e
      | Inr self \<Rightarrow> made = Inl (ValueError ''Arguments must be z3 instances of Variable.''))"

text \<open>Construct, then compile: \<^verbatim>\<open>Class(*args).get_predicate()\<close>.\<close>

definition compile_new :: "aclass \<Rightarrow> pyval list \<Rightarrow> error + pyval" where
  "compile_new c args = (case construct c args of Inl e \<Rightarrow> Inl e | Inr a \<Rightarrow> get_predicate a)"

text \<open>An atomic predicate object passed on as a Python value.\<close>

definition as_value :: "atom \<Rightarrow> pyval" where
  "as_value a = Atomic (fst a) (snd a)"

text \<open>What \<^verbatim>\<open>self.solver.model()\<close> gives once the check has looked for a model.\<close>

definition model_result :: "z3model option \<Rightarrow> error + pyval" where
  "model_result found =
     (case found of
        None \<Rightarrow> Inl (Z3Exception ''model is not available'')
      | Some m \<Rightarrow> Inr (PyModel m))"

subsection \<open>Observations on a combinator tree\<close>

text \<open>The tree with every \<^verbatim>\<open>rule_variable\<close> field reset to \<^verbatim>\<open>None\<close>.\<close>

fun erase :: "predicate \<Rightarrow> predicate" where
  "erase (And ps) = And (map erase ps)"
| "erase (Not_p p) = Not_p (erase p)"
| "erase (Or ps) = Or (map erase ps)"
| "erase (ModelHasRule f v) = ModelHasRule f PyNone"
| "erase p = p"

text \<open>No ModelHasRule node among the nodes that compilation visits.\<close>

fun quantifier_free :: "predicate \<Rightarrow> bool" where
  "quantifier_free (And ps) = list_all quantifier_free ps"
| "quantifier_free (Not_p p) = quantifier_free p"
| "quantifier_free (Or ps) = list_all quantifier_free ps"
| "quantifier_free (ModelHasRule f v) = False"
| "quantifier_free p = True"

subsection \<open>Boolean trees\<close>

text \<open>
  The spec's direct boolean evaluation of a tree built only from Top, Bottom, And, Or and
  Not: Top is true, Bottom false, And holds when all sub-results do, Or when any does,
  Not negates. Any other node has no boolean value.
\<close>

fun spec_eval :: "predicate \<Rightarrow> bool option"
  and spec_evals :: "predicate list \<Rightarrow> bool list option"
where
  "spec_eval Top_p = Some True"
| "spec_eval Bottom_p = Some False"
| "spec_eval (And ps) =
     (case spec_evals ps of None \<Rightarrow> None | Some bs \<Rightarrow> Some (list_all (\<lambda>b. b) bs))"
| "spec_eval (Or ps) =
     (case spec_evals ps of None \<Rightarrow> None | Some bs \<Rightarrow> Some (list_ex (\<lambda>b. b) bs))"
| "spec_eval (Not_p p) = (case spec_eval p of None \<Rightarrow> None | Some b \<Rightarrow> Some (\<not> b))"
| "spec_eval (ModelHasRule f v) = None"
| "spec_eval (PregraphHas r t) = None"
| "spec_eval (PostgraphHas r t) = None"
| "spec_evals [] = Some []"
| "spec_evals (p # ps) =
     (case spec_eval p of
        None \<Rightarrow> None
      | Some b \<Rightarrow> (case spec_evals ps of None \<Rightarrow> None | Some bs \<Rightarrow> Some (b # bs)))"

text \<open>Formulas made of literals and connectives only, and their truth value.\<close>

fun propositional :: "expr \<Rightarrow> bool" where
  "propositional (BoolVal b) = True"
| "propositional (AndE es) = list_all propositional es"
| "propositional (OrE es) = list_all propositional es"
| "propositional (NotE e) = propositional e"
| "propositional e = False"

fun truth :: "expr \<Rightarrow> bool" where
  "truth (BoolVal b) = b"
| "truth (AndE es) = list_all truth es"
| "truth (OrE es) = list_ex truth es"
| "truth (NotE e) = (\<not> truth e)"
| "truth e = False"

text \<open>The decision procedure is right about a single propositional formula.\<close>

definition decides_propositional :: "z3oracle \<Rightarrow> bool" where
  "decides_propositional orc =
     (\<forall>f. propositional f \<longrightarrow> decide orc [f] = (if truth f then Sat else Unsat))"

subsection \<open>The query evaluator of the combinators\<close>

text \<open>
  Modelled from the spec: the query evaluator that compiles a combinator tree
  (\<^verbatim>\<open>solver.py\<close>, which the docstring of \<^verbatim>\<open>Predicate.get_predicate\<close> names as its only
  caller, is not among the sources). By the spec it owns one solving session;
  \<^verbatim>\<open>checkSat()\<close> compiles and asserts on the first call only, runs the decision procedure
  and returns the status, and later calls return the cached status.
\<close>

record evaluator =
  ev_session :: solver
  ev_predicate :: predicate
  ev_model_variable :: pyval
  ev_string_interner :: pyval
  ev_node_interner :: pyval
  ev_rule_counter :: nat
  ev_status :: "status option"

definition new_evaluator :: "predicate \<Rightarrow> pyval \<Rightarrow> pyval \<Rightarrow> pyval \<Rightarrow> evaluator" where
  "new_evaluator p model_variable string_interner node_interner =
     \<lparr>ev_session = Solver, ev_predicate = p, ev_model_variable = model_variable,
      ev_string_interner = string_interner, ev_node_interner = node_interner,
      ev_rule_counter = 0, ev_status = None\<rparr>"

definition checkSat :: "z3oracle \<Rightarrow> evaluator \<Rightarrow> (error + status) \<times> evaluator" where
  "checkSat orc ev =
     (case ev_status ev of
        Some st \<Rightarrow> (Inr st, ev)
      | None \<Rightarrow>
          (case Predicate_get_predicate (ev_predicate ev) (ev_model_variable ev)
                  (ev_string_interner ev) (ev_node_interner ev) (ev_rule_counter ev) of
             (Inl e, p, k) \<Rightarrow> (Inl e, ev\<lparr>ev_predicate := p, ev_rule_counter := k\<rparr>)
           | (Inr f, p, k) \<Rightarrow>
               (case solver_add (Z3 f) (ev_session ev) of
                  Inl e \<Rightarrow> (Inl e, ev\<lparr>ev_predicate := p, ev_rule_counter := k\<rparr>)
                | Inr s1 \<Rightarrow>
                    (Inr (fst (solver_check orc s1)),
                     ev\<lparr>ev_session := snd (solver_check orc s1), ev_predicate := p,
                        ev_rule_counter := k,
                        ev_status := Some (fst (solver_check orc s1))\<rparr>))))"

section \<open>Concrete inputs\<close>

text \<open>A graph-action pair whose \<^verbatim>\<open>initialize\<close> leaves the solver as it is, and one that adds
  a formula of its own.\<close>

definition plain_pair :: graphactionpair where
  "plain_pair = \<lparr>initialize = (\<lambda>s. Inr s)\<rparr>"

definition node_formula :: expr where
  "node_formula = App ''pregraph.has'' BoolSort [Const ''n'' IdentifierSort]"

definition axiom_pair :: graphactionpair where
  "axiom_pair = \<lparr>initialize = solver_add (Z3 node_formula)\<rparr>"

text \<open>The object that \<^verbatim>\<open>Top(plain_pair)\<close> constructs.\<close>

definition top_object :: atom where
  "top_object =
     (Top,
      [(''solver'', PySolver Solver), (''graphactionpair'', PyGap plain_pair),
       (''interpretation'', Z3Func ''interpretation'' [VariableSort] IdentifierSort),
       (''_asserted_yet'', PyBool False), (''_status'', PyNone)])"

text \<open>The object that \<^verbatim>\<open>Bottom(plain_pair)\<close> constructs.\<close>

definition bottom_object :: atom where
  "bottom_object =
     (Bottom,
      [(''solver'', PySolver Solver), (''graphactionpair'', PyGap plain_pair),
       (''interpretation'', Z3Func ''interpretation'' [VariableSort] IdentifierSort),
       (''_asserted_yet'', PyBool False), (''_status'', PyNone)])"

text \<open>The object that \<^verbatim>\<open>Add(plain_pair)\<close> constructs.\<close>

definition add_object :: atom where
  "add_object =
     (Add,
      [(''solver'', PySolver Solver), (''graphactionpair'', PyGap plain_pair),
       (''interpretation'', Z3Func ''interpretation'' [VariableSort] IdentifierSort),
       (''_asserted_yet'', PyBool False), (''_status'', PyNone)])"

text \<open>
  A declared Variable constant, \<^verbatim>\<open>x = Const('x', Variable)\<close>, and the object that
  \<^verbatim>\<open>Equal(x, x, plain_pair)\<close> constructs.
\<close>

definition declared_x :: expr where
  "declared_x = Const ''x'' VariableSort"

definition equal_object :: atom where
  "equal_object =
     (Equal,
      [(''solver'', PySolver Solver), (''graphactionpair'', PyGap plain_pair),
       (''interpretation'', Z3Func ''interpretation'' [VariableSort] IdentifierSort),
       (''_asserted_yet'', PyBool False), (''_status'', PyNone),
       (''x'', Z3 declared_x), (''y'', Z3 declared_x)])"

text \<open>A decision procedure that evaluates propositional formulas, and one that gives up
  on every query yet leaves a candidate model behind.\<close>

definition ground_oracle :: z3oracle where
  "ground_oracle =
     \<lparr>decide = (\<lambda>fs. if list_all truth fs then Sat else Unsat),
      find_model = (\<lambda>fs. if list_all truth fs then Some [] else None)\<rparr>"

definition candidate_model :: z3model where
  "candidate_model = [(Const ''x'' VariableSort, variable 0)]"

definition undecided_oracle :: z3oracle where
  "undecided_oracle = \<lparr>decide = (\<lambda>fs. Unknown), find_model = (\<lambda>fs. Some candidate_model)\<rparr>"

text \<open>The model relation handed to the combinators, and a rule function.\<close>

definition model_variable :: pyval where
  "model_variable = Z3Func ''model'' [RuleSort] BoolSort"

definition top_rule_function :: pyval where
  "top_rule_function = PyFun (\<lambda>r. Inr (Pred Top_p))"

section \<open>Properties of atomic_predicate.py\<close>

subsection \<open>Attributes and constructors\<close>

lemma getattr_setattr:
  "getattr (setattr self n v) m = (if m = n then Inr v else getattr self m)"
  by (simp add: getattr_def setattr_def update_conv')

lemma AtomicPredicate_init_Inr:
  assumes "AtomicPredicate_init [] args = Inr self"
  shows "\<exists>g s. args = [PyGap g] \<and> initialize g Solver = Inr s \<and>
           self = [(''solver'', PySolver s), (''graphactionpair'', PyGap g),
                   (''interpretation'', Z3Func ''interpretation'' [VariableSort] IdentifierSort),
                   (''_asserted_yet'', PyBool False), (''_status'', PyNone)]"
  using assms
  by (auto simp: AtomicPredicate_init_def setattr_def split: list.splits pyval.splits sum.splits)

lemma ensure_variable_iff:
  "ensure_variable v = (if is_variable v then Inr () else Inl (ValueError ''Arguments must be z3 instances of Variable.''))"
  by (cases v) (simp_all add: ensure_variable_def is_variable_def sort_method_def)

lemma base_fresh:
  assumes "AtomicPredicate_init [] args = Inr self"
  shows "\<exists>g s. args = [PyGap g] \<and> fresh_object self g s"
proof -
  from AtomicPredicate_init_Inr [OF assms] obtain g s where
    "args = [PyGap g]" "initialize g Solver = Inr s"
    "self = [(''solver'', PySolver s), (''graphactionpair'', PyGap g),
                   (''interpretation'', Z3Func ''interpretation'' [VariableSort] IdentifierSort),
                   (''_asserted_yet'', PyBool False), (''_status'', PyNone)]"
    by blast
  then show ?thesis by (simp add: fresh_object_def getattr_def)
qed

lemma fresh_setattr:
  "fresh_object self g s \<Longrightarrow> n \<in> {''x'', ''y'', ''label''} \<Longrightarrow> fresh_object (setattr self n v) g s"
  by (auto simp: fresh_object_def getattr_setattr)

lemma class_init_fresh:
  assumes "class_init c args = Inr self"
  shows "\<exists>g s. fresh_object self g s"
proof (cases c)
  case Labeled
  with assms show ?thesis
    by (auto simp: Labeled_init_def split: list.splits sum.splits dest!: base_fresh intro!: fresh_setattr)
next
  case PreHas
  with assms show ?thesis
    by (auto simp: init_x_def split: list.splits sum.splits dest!: base_fresh intro!: fresh_setattr)
next
  case PostHas
  with assms show ?thesis
    by (auto simp: init_x_def split: list.splits sum.splits dest!: base_fresh intro!: fresh_setattr)
qed (use assms in \<open>auto simp: init_x_y_def split: list.splits sum.splits dest!: base_fresh intro!: fresh_setattr\<close>)

lemma construct_fresh:
  assumes "construct c args = Inr a"
  shows "fst a = c \<and> (\<exists>g s. fresh_object (snd a) g s)"
proof -
  from assms obtain self where "class_init c args = Inr self" "a = (c, self)"
    by (auto simp: construct_def split: sum.splits)
  with class_init_fresh [of c args self] show ?thesis by simp
qed


lemma call_bool:
  "call (Z3Func n d BoolSort) args = Inr v \<Longrightarrow> \<exists>f. to_bool_expr v = Inr f"
  by (auto simp: call_def to_bool_expr_def split: option.splits if_splits)

lemma graph_leaf_bool:
  "graph_leaf self component relation names = Inr v \<Longrightarrow> \<exists>f. to_bool_expr v = Inr f"
  by (auto simp: graph_leaf_def model_relation_def split: sum.splits pyval.splits dest: call_bool)

lemma action_leaf_bool:
  "action_leaf self eff = Inr v \<Longrightarrow> \<exists>f. to_bool_expr v = Inr f"
  by (auto simp: action_leaf_def model_relation_def split: sum.splits pyval.splits dest: call_bool)

lemma int_eq_bool: "\<exists>f. to_bool_expr (int_eq n v) = Inr f"
  by (cases v) (simp_all add: int_eq_def to_bool_expr_def)

lemma get_predicate_bool:
  assumes "get_predicate a = Inr p"
  shows "\<exists>f. to_bool_expr p = Inr f"
proof -
  obtain c self where a: "a = (c, self)" by (cases a)
  show ?thesis
  proof (cases c)
    case Equal
    with assms a show ?thesis
      by (auto simp: to_bool_expr_def split: sum.splits)
  next
    case Labeled
    with assms a show ?thesis
      by (auto simp: int_eq_bool split: sum.splits)
  qed (use assms a in \<open>auto simp: to_bool_expr_def dest: graph_leaf_bool action_leaf_bool\<close>)
qed

lemma assert_over_fresh:
  assumes "fresh_object self g s" and "get_predicate (c, self) = Inr p"
      and "to_bool_expr p = Inr f"
  shows "assert_over orc (c, self) =
           (Inr (),
            (c, setattr (setattr (setattr self ''solver''
                   (PySolver (snd (solver_check orc (s\<lparr>assertions := assertions s @ [f]\<rparr>)))))
                   ''_status'' (PyStatus (decide orc (assertions s @ [f]))))
                   ''_asserted_yet'' (PyBool True)))"
  using assms
  by (simp add: assert_over_def fresh_object_def method_of_solver_def solver_add_def
        solver_check_def)

lemma check_sat_asserted:
  "asserted_yet b \<Longrightarrow> check_sat orc b = (getattr (snd b) ''_status'', b)"
  by (auto simp: check_sat_def asserted_yet_def split: sum.splits)

lemma get_model_asserted:
  "asserted_yet b \<Longrightarrow> snd (get_model orc b) = b"
  by (auto simp: get_model_def asserted_yet_def split: sum.splits)

lemma assert_over_keeps_asserted:
  "asserted_yet b \<Longrightarrow> asserted_yet (snd (assert_over orc b))"
  by (auto simp: assert_over_def asserted_yet_def getattr_setattr Let_def split: sum.splits prod.splits)

lemma check_sat_fresh:
  assumes "fresh_object self g s" and "get_predicate (c, self) = Inr p"
      and "to_bool_expr p = Inr f"
  shows "check_sat orc (c, self) =
           (Inr (PyStatus (decide orc (assertions s @ [f]))),
            (c, setattr (setattr (setattr self ''solver''
                   (PySolver (snd (solver_check orc (s\<lparr>assertions := assertions s @ [f]\<rparr>)))))
                   ''_status'' (PyStatus (decide orc (assertions s @ [f]))))
                   ''_asserted_yet'' (PyBool True)))"
  using assms(1) assert_over_fresh [OF assms, of orc]
  by (simp add: check_sat_def fresh_object_def getattr_setattr)

subsection \<open>check_sat\<close>

lemma assert_over_failed_compile:
  "get_predicate a = Inl e \<Longrightarrow> getattr (snd a) ''solver'' = Inr (PySolver s) \<Longrightarrow>
     assert_over orc a = (Inl e, a)"
  by (simp add: assert_over_def method_of_solver_def)

lemma fresh_not_asserted: "fresh_object self g s \<Longrightarrow> \<not> asserted_yet (c, self)"
  by (simp add: fresh_object_def asserted_yet_def)

lemma check_sat_failed_compile:
  assumes "fresh_object self g s" and "get_predicate (c, self) = Inl e"
  shows "check_sat orc (c, self) = (Inl e, (c, self))"
  using assms
  by (simp add: check_sat_def assert_over_def fresh_object_def method_of_solver_def)

text \<open>
  Claim C3, as amended. On an evaluator fresh from its constructor: when its predicate
  compiles, the first \<^verbatim>\<open>check_sat()\<close> adds the compiled formula to the solver once (the
  solver then holds what \<^verbatim>\<open>initialize\<close> left there followed by that one formula), runs the
  decision procedure and returns its status; the evaluator is then asserted, and a second
  \<^verbatim>\<open>check_sat()\<close> returns the same status and leaves the evaluator, its solver included,
  exactly as it was. When compilation raises, \<^verbatim>\<open>check_sat()\<close> raises the same exception,
  returns no status and leaves the evaluator as it was, unasserted, so that the next call
  compiles again. No operation (\<^verbatim>\<open>check_sat\<close>, \<^verbatim>\<open>get_model\<close>, \<^verbatim>\<open>_assert_over\<close>) takes an
  asserted evaluator back to the unasserted state.
\<close>

theorem check_sat_asserts_once_and_caches:
  assumes "construct c args = Inr a"
  shows "(\<forall>p. get_predicate a = Inr p \<longrightarrow>
            (\<exists>s f. getattr (snd a) ''solver'' = Inr (PySolver s) \<and> to_bool_expr p = Inr f \<and>
               fst (check_sat orc a) = Inr (PyStatus (decide orc (assertions s @ [f]))) \<and>
               getattr (snd (snd (check_sat orc a))) ''solver'' =
                 Inr (PySolver (snd (solver_check orc (s\<lparr>assertions := assertions s @ [f]\<rparr>)))) \<and>
               asserted_yet (snd (check_sat orc a)) \<and>
               check_sat orc (snd (check_sat orc a)) = check_sat orc a)) \<and>
         (\<forall>e. get_predicate a = Inl e \<longrightarrow>
            check_sat orc a = (Inl e, a) \<and> \<not> asserted_yet a) \<and>
         (\<forall>b. asserted_yet b \<longrightarrow>
            asserted_yet (snd (check_sat orc b)) \<and> asserted_yet (snd (get_model orc b)) \<and>
            asserted_yet (snd (assert_over orc b)))"
proof -
  from construct_fresh [OF assms(1)] obtain g s where
    a: "a = (c, snd a)" and fresh: "fresh_object (snd a) g s"
    by (cases a) auto
  have one: "\<forall>p. get_predicate a = Inr p \<longrightarrow>
            (\<exists>s f. getattr (snd a) ''solver'' = Inr (PySolver s) \<and> to_bool_expr p = Inr f \<and>
               fst (check_sat orc a) = Inr (PyStatus (decide orc (assertions s @ [f]))) \<and>
               getattr (snd (snd (check_sat orc a))) ''solver'' =
                 Inr (PySolver (snd (solver_check orc (s\<lparr>assertions := assertions s @ [f]\<rparr>)))) \<and>
               asserted_yet (snd (check_sat orc a)) \<and>
               check_sat orc (snd (check_sat orc a)) = check_sat orc a)"
  proof (intro allI impI)
    fix p
    assume compiled: "get_predicate a = Inr p"
    from get_predicate_bool [OF compiled] obtain f where f: "to_bool_expr p = Inr f" ..
    from compiled a have p: "get_predicate (c, snd a) = Inr p" by simp
    have first: "check_sat orc a =
           (Inr (PyStatus (decide orc (assertions s @ [f]))),
            (c, setattr (setattr (setattr (snd a) ''solver''
                   (PySolver (snd (solver_check orc (s\<lparr>assertions := assertions s @ [f]\<rparr>)))))
                   ''_status'' (PyStatus (decide orc (assertions s @ [f]))))
                   ''_asserted_yet'' (PyBool True)))"
      using check_sat_fresh [OF fresh p f, of orc] a by simp
    have flag: "asserted_yet (snd (check_sat orc a))"
      by (simp add: first asserted_yet_def getattr_setattr)
    have again: "check_sat orc (snd (check_sat orc a)) = check_sat orc a"
      using check_sat_asserted [OF flag, of orc] by (simp add: first getattr_setattr)
    have session: "getattr (snd (snd (check_sat orc a))) ''solver'' =
              Inr (PySolver (snd (solver_check orc (s\<lparr>assertions := assertions s @ [f]\<rparr>))))"
      by (simp add: first getattr_setattr)
    from fresh have before: "getattr (snd a) ''solver'' = Inr (PySolver s)"
      by (simp add: fresh_object_def)
    show "\<exists>s f. getattr (snd a) ''solver'' = Inr (PySolver s) \<and> to_bool_expr p = Inr f \<and>
               fst (check_sat orc a) = Inr (PyStatus (decide orc (assertions s @ [f]))) \<and>
               getattr (snd (snd (check_sat orc a))) ''solver'' =
                 Inr (PySolver (snd (solver_check orc (s\<lparr>assertions := assertions s @ [f]\<rparr>)))) \<and>
               asserted_yet (snd (check_sat orc a)) \<and>
               check_sat orc (snd (check_sat orc a)) = check_sat orc a"
      using before f first flag again session
      by (intro exI [of _ s] exI [of _ f]) simp
  qed
  have two: "\<forall>e. get_predicate a = Inl e \<longrightarrow>
            check_sat orc a = (Inl e, a) \<and> \<not> asserted_yet a"
  proof (intro allI impI)
    fix e
    assume "get_predicate a = Inl e"
    with a have "get_predicate (c, snd a) = Inl e" by simp
    from check_sat_failed_compile [OF fresh this, of orc] fresh_not_asserted [OF fresh, of c] a
    show "check_sat orc a = (Inl e, a) \<and> \<not> asserted_yet a" by simp
  qed
  have three: "\<forall>b. asserted_yet b \<longrightarrow>
            asserted_yet (snd (check_sat orc b)) \<and> asserted_yet (snd (get_model orc b)) \<and>
            asserted_yet (snd (assert_over orc b))"
    by (simp add: check_sat_asserted get_model_asserted assert_over_keeps_asserted)
  from one two three show ?thesis by (intro conjI)
qed

lemma add_made: "construct Add [PyGap plain_pair] = Inr add_object"
  by (simp add: construct_def AtomicPredicate_init_def plain_pair_def add_object_def setattr_def)

text \<open>\<^verbatim>\<open>Top(plain_pair)\<close>, which compiles, and \<^verbatim>\<open>Add(plain_pair)\<close>, which does not, with the
  evaluating decision procedure.\<close>

theorem check_sat_witness:
  "construct Top [PyGap plain_pair] = Inr top_object \<and>
   get_predicate top_object = Inr (PyBool True) \<and>
   fst (check_sat ground_oracle top_object) = Inr (PyStatus Sat) \<and>
   check_sat ground_oracle (snd (check_sat ground_oracle top_object)) =
     check_sat ground_oracle top_object \<and>
   asserted_yet (snd (get_model ground_oracle (snd (check_sat ground_oracle top_object)))) \<and>
   construct Add [PyGap plain_pair] = Inr add_object \<and>
   get_predicate add_object =
     Inl (NotImplementedError ''Implement get_predicate in subclasses.'') \<and>
   check_sat ground_oracle add_object =
     (Inl (NotImplementedError ''Implement get_predicate in subclasses.''), add_object)"
proof -
  have made: "construct Top [PyGap plain_pair] = Inr top_object"
    by (simp add: construct_def AtomicPredicate_init_def plain_pair_def top_object_def
          setattr_def)
  have compiled: "get_predicate top_object = Inr (PyBool True)"
    by (simp add: top_object_def)
  have session: "getattr (snd top_object) ''solver'' = Inr (PySolver Solver)"
    by (simp add: top_object_def getattr_def)
  have formula: "to_bool_expr (PyBool True) = Inr (BoolVal True)"
    by (simp add: to_bool_expr_def)
  have verdict: "decide ground_oracle (assertions Solver @ [BoolVal True]) = Sat"
    by (simp add: ground_oracle_def Solver_def)
  have refused: "get_predicate add_object =
      Inl (NotImplementedError ''Implement get_predicate in subclasses.'')"
    by (simp add: add_object_def)
  note main = check_sat_asserts_once_and_caches [OF made, of ground_oracle]
  from main compiled obtain s f where
    sf: "getattr (snd top_object) ''solver'' = Inr (PySolver s)"
        "to_bool_expr (PyBool True) = Inr f"
    and first: "fst (check_sat ground_oracle top_object) =
                  Inr (PyStatus (decide ground_oracle (assertions s @ [f])))"
    and flag: "asserted_yet (snd (check_sat ground_oracle top_object))"
    and again: "check_sat ground_oracle (snd (check_sat ground_oracle top_object)) =
                  check_sat ground_oracle top_object"
    by blast
  from sf session formula have "s = Solver" "f = BoolVal True" by simp_all
  with first verdict have sat: "fst (check_sat ground_oracle top_object) = Inr (PyStatus Sat)"
    by simp
  from main flag
  have stays:
    "asserted_yet (snd (get_model ground_oracle (snd (check_sat ground_oracle top_object))))"
    by blast
  from check_sat_asserts_once_and_caches [OF add_made, of ground_oracle] refused
  have raised: "check_sat ground_oracle add_object =
     (Inl (NotImplementedError ''Implement get_predicate in subclasses.''), add_object)"
    by blast
  from made compiled sat again stays add_made refused raised show ?thesis by simp
qed

text \<open>
  Claim C3 as stated fails: not every predicate gets a status. \<^verbatim>\<open>Add\<close> (like \<^verbatim>\<open>Rem\<close>) has no
  \<^verbatim>\<open>get_predicate\<close> of its own and inherits the one that raises NotImplementedError, so the
  first \<^verbatim>\<open>check_sat()\<close> of \<^verbatim>\<open>Add(plain_pair)\<close> raises instead of returning SAT, UNSAT or
  UNKNOWN, nothing is asserted, and the evaluator is left unasserted: the next call
  compiles again.
\<close>

theorem check_sat_of_Add_returns_no_status:
  "construct Add [PyGap plain_pair] = Inr add_object \<and>
   check_sat ground_oracle add_object =
     (Inl (NotImplementedError ''Implement get_predicate in subclasses.''), add_object) \<and>
   \<not> asserted_yet add_object \<and>
   getattr (snd add_object) ''solver'' = Inr (PySolver Solver)"
  by (simp add: construct_def AtomicPredicate_init_def plain_pair_def add_object_def setattr_def
        check_sat_def assert_over_def getattr_def method_of_solver_def asserted_yet_def)

subsection \<open>Validation of Variable arguments\<close>

lemma rejected_x_y:
  assumes "\<not> (is_variable x \<and> is_variable y)"
  shows "rejected (case init_x_y (x # y # args) of Inl e \<Rightarrow> Inl e | Inr self \<Rightarrow> Inr (c, self))
           (AtomicPredicate_init [] args)"
  using assms
  by (auto simp: rejected_def init_x_y_def ensure_variable_iff split: sum.splits)

lemma base_plain: "AtomicPredicate_init [] [PyGap plain_pair] = Inr (snd top_object)"
  by (simp add: AtomicPredicate_init_def plain_pair_def top_object_def setattr_def)

text \<open>
  Claim C10. Every constructor that takes Variable arguments (Equal, Labeled, PreParent,
  PostParent, DoParent, PreLink, PostLink, DoLink, DoUnlink, PreHas, PostHas) raises
  whenever one of them is not a Variable-sorted z3 value, so no object is built and nothing
  is left for compile or solve time. The exception is the ValueError
  \<^verbatim>\<open>Arguments must be z3 instances of Variable.\<close> of \<^verbatim>\<open>ensure_variable\<close>, unless the
  base-class constructor, which runs first, has already raised its own. The label of
  Labeled is not a Variable argument and is not checked.
\<close>

theorem ill_sorted_variable_rejected_at_construction:
  "(c \<in> set two_variable_classes \<longrightarrow> \<not> (is_variable x \<and> is_variable y) \<longrightarrow>
      rejected (construct c (x # y # args)) (AtomicPredicate_init [] args)) \<and>
   (\<not> is_variable x \<longrightarrow>
      rejected (construct Labeled (x # label # args)) (AtomicPredicate_init [] args)) \<and>
   (d \<in> {PreHas, PostHas} \<longrightarrow> \<not> is_variable x \<longrightarrow>
      rejected (construct d (x # args)) (AtomicPredicate_init [] args))"
proof (intro conjI impI)
  assume "c \<in> set two_variable_classes" and "\<not> (is_variable x \<and> is_variable y)"
  then show "rejected (construct c (x # y # args)) (AtomicPredicate_init [] args)"
    using rejected_x_y [where x = x and y = y and args = args and c = c]
    by (auto simp: two_variable_classes_def construct_def)
next
  assume "\<not> is_variable x"
  then show "rejected (construct Labeled (x # label # args)) (AtomicPredicate_init [] args)"
    by (auto simp: rejected_def construct_def Labeled_init_def ensure_variable_iff
          split: sum.splits)
next
  assume "d \<in> {PreHas, PostHas}" and "\<not> is_variable x"
  then show "rejected (construct d (x # args)) (AtomicPredicate_init [] args)"
    by (auto simp: rejected_def construct_def init_x_def ensure_variable_iff
          split: sum.splits)
qed

text \<open>An integer for \<open>x\<close> of Equal, an Int-sorted z3 value for \<open>x\<close> of Labeled and of PreHas.\<close>

theorem ill_sorted_variable_witness:
  "Equal \<in> set two_variable_classes \<and>
   \<not> (is_variable (PyInt 3) \<and> is_variable (Z3 (variable 2))) \<and>
   construct Equal [PyInt 3, Z3 (variable 2), PyGap plain_pair] =
     Inl (ValueError ''Arguments must be z3 instances of Variable.'') \<and>
   \<not> is_variable (Z3 (IntNum 7)) \<and>
   construct Labeled [Z3 (IntNum 7), PyStr ''kinase'', PyGap plain_pair] =
     Inl (ValueError ''Arguments must be z3 instances of Variable.'') \<and>
   PreHas \<in> {PreHas, PostHas} \<and>
   construct PreHas [Z3 (IntNum 7), PyGap plain_pair] =
     Inl (ValueError ''Arguments must be z3 instances of Variable.'')"
proof -
  have c1: "Equal \<in> set two_variable_classes" by (simp add: two_variable_classes_def)
  have v1: "\<not> (is_variable (PyInt 3) \<and> is_variable (Z3 (variable 2)))"
    by (simp add: is_variable_def)
  have v2: "\<not> is_variable (Z3 (IntNum 7))" by (simp add: is_variable_def)
  have c3: "PreHas \<in> {PreHas, PostHas}" by simp
  show ?thesis
    using c1 v1 v2 c3
      ill_sorted_variable_rejected_at_construction
        [where c = Equal and x = "PyInt 3" and y = "Z3 (variable 2)"
           and args = "[PyGap plain_pair]" and label = "PyStr ''kinase''" and d = PreHas]
      ill_sorted_variable_rejected_at_construction
        [where c = Equal and x = "Z3 (IntNum 7)" and y = "Z3 (variable 2)"
           and args = "[PyGap plain_pair]" and label = "PyStr ''kinase''" and d = PreHas]
    by (simp add: rejected_def base_plain)
qed

subsection \<open>get_model\<close>

lemma get_model_fresh:
  assumes "fresh_object self g s" and "get_predicate (c, self) = Inr p"
      and "to_bool_expr p = Inr f"
  shows "fst (get_model orc (c, self)) = model_result (find_model orc (assertions s @ [f]))"
  using assms(1) assert_over_fresh [OF assms, of orc]
  by (simp add: get_model_def fresh_object_def getattr_setattr method_model_def
        solver_model_def solver_check_def model_result_def split: option.splits)

lemma get_model_after_check_sat:
  assumes "fresh_object self g s" and "get_predicate (c, self) = Inr p"
      and "to_bool_expr p = Inr f"
  shows "fst (get_model orc (snd (check_sat orc (c, self)))) =
           model_result (find_model orc (assertions s @ [f]))"
  using check_sat_fresh [OF assms, of orc]
  by (simp add: get_model_def getattr_setattr method_model_def
        solver_model_def solver_check_def model_result_def split: option.splits)

text \<open>
  Claim C4, as amended. \<^verbatim>\<open>get_model()\<close> tests no status of its own. On an evaluator fresh
  from its constructor whose predicate compiles, called directly or after \<^verbatim>\<open>check_sat()\<close>,
  it makes sure the formula has been added and checked once and then returns exactly
  what the solver's \<^verbatim>\<open>model()\<close> gives: it raises the solver's
  \<^verbatim>\<open>Z3Exception("model is not available")\<close> when the check left no model behind and returns
  no binding then, and it returns the solver's model whenever the check left one,
  whatever the status was.
\<close>

theorem get_model_gives_what_the_solver_gives:
  assumes "construct c args = Inr a" and "get_predicate a = Inr p"
  shows "\<exists>s f. getattr (snd a) ''solver'' = Inr (PySolver s) \<and> to_bool_expr p = Inr f \<and>
           fst (check_sat orc a) = Inr (PyStatus (decide orc (assertions s @ [f]))) \<and>
           fst (get_model orc a) = model_result (find_model orc (assertions s @ [f])) \<and>
           fst (get_model orc (snd (check_sat orc a))) =
             model_result (find_model orc (assertions s @ [f]))"
proof -
  from construct_fresh [OF assms(1)] obtain g s where
    a: "a = (c, snd a)" and fresh: "fresh_object (snd a) g s"
    by (cases a) auto
  from get_predicate_bool [OF assms(2)] obtain f where f: "to_bool_expr p = Inr f" ..
  from assms(2) a have p: "get_predicate (c, snd a) = Inr p" by simp
  have "fst (check_sat orc a) = Inr (PyStatus (decide orc (assertions s @ [f])))"
    using check_sat_fresh [OF fresh p f, of orc] a by simp
  moreover have "fst (get_model orc a) = model_result (find_model orc (assertions s @ [f]))"
    using get_model_fresh [OF fresh p f, of orc] a by simp
  moreover have "fst (get_model orc (snd (check_sat orc a))) =
             model_result (find_model orc (assertions s @ [f]))"
    using get_model_after_check_sat [OF fresh p f, of orc] a by simp
  moreover have "getattr (snd a) ''solver'' = Inr (PySolver s)"
    using fresh by (simp add: fresh_object_def)
  ultimately show ?thesis using f by blast
qed

lemma bottom_made: "construct Bottom [PyGap plain_pair] = Inr bottom_object"
  by (simp add: construct_def AtomicPredicate_init_def plain_pair_def bottom_object_def
        setattr_def)

text \<open>\<^verbatim>\<open>Bottom(plain_pair)\<close> with the evaluating decision procedure: unsatisfiable, no model,
  and \<^verbatim>\<open>get_model()\<close> raises.\<close>

theorem get_model_witness:
  "construct Bottom [PyGap plain_pair] = Inr bottom_object \<and>
   get_predicate bottom_object = Inr (PyBool False) \<and>
   fst (check_sat ground_oracle bottom_object) = Inr (PyStatus Unsat) \<and>
   fst (get_model ground_oracle bottom_object) = Inl (Z3Exception ''model is not available'') \<and>
   fst (get_model ground_oracle (snd (check_sat ground_oracle bottom_object))) =
     Inl (Z3Exception ''model is not available'')"
proof -
  have compiled: "get_predicate bottom_object = Inr (PyBool False)"
    by (simp add: bottom_object_def)
  have session: "getattr (snd bottom_object) ''solver'' = Inr (PySolver Solver)"
    by (simp add: bottom_object_def getattr_def)
  have formula: "to_bool_expr (PyBool False) = Inr (BoolVal False)"
    by (simp add: to_bool_expr_def)
  have verdict: "decide ground_oracle (assertions Solver @ [BoolVal False]) = Unsat"
    and none: "find_model ground_oracle (assertions Solver @ [BoolVal False]) = None"
    by (simp_all add: ground_oracle_def Solver_def)
  from get_model_gives_what_the_solver_gives [OF bottom_made compiled, of ground_oracle]
  obtain s f where
    sf: "getattr (snd bottom_object) ''solver'' = Inr (PySolver s)"
        "to_bool_expr (PyBool False) = Inr f"
    and results:
        "fst (check_sat ground_oracle bottom_object) =
           Inr (PyStatus (decide ground_oracle (assertions s @ [f])))"
        "fst (get_model ground_oracle bottom_object) =
           model_result (find_model ground_oracle (assertions s @ [f]))"
        "fst (get_model ground_oracle (snd (check_sat ground_oracle bottom_object))) =
           model_result (find_model ground_oracle (assertions s @ [f]))"
    by blast
  from sf session formula have "s = Solver" "f = BoolVal False" by simp_all
  with results verdict none bottom_made compiled show ?thesis
    by (simp add: model_result_def)
qed

text \<open>
  Claim C4 as stated fails: \<^verbatim>\<open>get_model()\<close> does not look at \<^verbatim>\<open>_status\<close>. A solver may
  give up on a query and still hold a candidate model (z3 keeps one after an
  \<^verbatim>\<open>unknown\<close> verdict when its search had built one); then the status is Unknown and
  \<^verbatim>\<open>get_model()\<close> returns that binding instead of raising.
\<close>

theorem get_model_on_unknown_returns_a_binding:
  "construct Top [PyGap plain_pair] = Inr top_object \<and>
   fst (check_sat undecided_oracle top_object) = Inr (PyStatus Unknown) \<and>
   fst (get_model undecided_oracle (snd (check_sat undecided_oracle top_object))) =
     Inr (PyModel candidate_model)"
  by (simp add: construct_def AtomicPredicate_init_def plain_pair_def top_object_def
        setattr_def check_sat_def get_model_def assert_over_def getattr_def method_of_solver_def
        solver_add_def to_bool_expr_def solver_check_def undecided_oracle_def Solver_def
        method_model_def solver_model_def)

subsection \<open>The relational leaves\<close>

text \<open>
  No constructor assigns an attribute \<^verbatim>\<open>model\<close> (the base class stores the pair as
  \<^verbatim>\<open>graphactionpair\<close>), so \<^verbatim>\<open>self.model\<close> raises in every relational leaf, whatever the
  arguments were.
\<close>

lemma relational_leaf_has_no_model:
  assumes "construct c args = Inr a"
      and "c \<in> {PreParent, PostParent, DoParent, PreLink, PostLink, DoLink, DoUnlink,
                 PreHas, PostHas}"
  shows "get_predicate a = Inl (AttributeError ''model'')"
proof -
  from construct_fresh [OF assms(1)] obtain g s where
    a: "a = (c, snd a)" and fresh: "fresh_object (snd a) g s"
    by (cases a) auto
  from fresh have "getattr (snd a) ''model'' = Inl (AttributeError ''model'')"
    by (simp add: fresh_object_def)
  then have "get_predicate (c, snd a) = Inl (AttributeError ''model'')"
    using assms(2) by (auto simp: graph_leaf_def action_leaf_def)
  with a show ?thesis by simp
qed

lemma construct_x_y:
  assumes "c \<in> set two_variable_classes" and "is_variable x" and "is_variable y"
      and "AtomicPredicate_init [] args = Inr self"
  shows "construct c (x # y # args) = Inr (c, setattr (setattr self ''x'' x) ''y'' y)"
  using assms
  by (auto simp: two_variable_classes_def construct_def init_x_y_def ensure_variable_iff)

lemma construct_x:
  assumes "c \<in> {PreHas, PostHas}" and "is_variable x"
      and "AtomicPredicate_init [] args = Inr self"
  shows "construct c (x # args) = Inr (c, setattr self ''x'' x)"
  using assms
  by (auto simp: construct_def init_x_def ensure_variable_iff)

lemma compile_new_relational:
  assumes "is_variable x" and "is_variable y"
      and "AtomicPredicate_init [] args = Inr self"
  shows "c \<in> {PreParent, PostParent, DoParent, PreLink, PostLink, DoLink, DoUnlink} \<Longrightarrow>
           compile_new c (x # y # args) = Inl (AttributeError ''model'')"
    and "c \<in> {PreHas, PostHas} \<Longrightarrow> compile_new c (x # args) = Inl (AttributeError ''model'')"
proof -
  assume c: "c \<in> {PreParent, PostParent, DoParent, PreLink, PostLink, DoLink, DoUnlink}"
  then have "c \<in> set two_variable_classes" by (auto simp: two_variable_classes_def)
  from construct_x_y [OF this assms] c
  show "compile_new c (x # y # args) = Inl (AttributeError ''model'')"
    using relational_leaf_has_no_model [of c "x # y # args"]
    by (auto simp: compile_new_def)
next
  assume c: "c \<in> {PreHas, PostHas}"
  from construct_x [OF this assms(1,3)] c
  show "compile_new c (x # args) = Inl (AttributeError ''model'')"
    using relational_leaf_has_no_model [of c "x # args"]
    by (auto simp: compile_new_def)
qed

lemma variable_is_variable: "is_variable (Z3 (variable n))"
  by (simp add: is_variable_def variable_def)

text \<open>
  Claim C1 does not hold of the code. The claim: each relational leaf compiles to its
  relation of the pregraph, the postgraph or the action, applied to the interpretation of
  its arguments, as the docstring of each class says. The code: \<^verbatim>\<open>get_predicate\<close> of
  PreParent, PostParent, DoParent, PreLink, PostLink, DoLink, DoUnlink, PreHas and PostHas
  starts with \<^verbatim>\<open>self.model\<close>, an attribute that is never assigned, and raises
  AttributeError instead of returning a formula; here for the variables 1 and 2.
\<close>

theorem relational_leaves_raise_AttributeError:
  "compile_new PreParent [Z3 (variable 1), Z3 (variable 2), PyGap plain_pair] =
     Inl (AttributeError ''model'') \<and>
   compile_new PostParent [Z3 (variable 1), Z3 (variable 2), PyGap plain_pair] =
     Inl (AttributeError ''model'') \<and>
   compile_new DoParent [Z3 (variable 1), Z3 (variable 2), PyGap plain_pair] =
     Inl (AttributeError ''model'') \<and>
   compile_new PreLink [Z3 (variable 1), Z3 (variable 2), PyGap plain_pair] =
     Inl (AttributeError ''model'') \<and>
   compile_new PostLink [Z3 (variable 1), Z3 (variable 2), PyGap plain_pair] =
     Inl (AttributeError ''model'') \<and>
   compile_new DoLink [Z3 (variable 1), Z3 (variable 2), PyGap plain_pair] =
     Inl (AttributeError ''model'') \<and>
   compile_new DoUnlink [Z3 (variable 1), Z3 (variable 2), PyGap plain_pair] =
     Inl (AttributeError ''model'') \<and>
   compile_new PreHas [Z3 (variable 1), PyGap plain_pair] = Inl (AttributeError ''model'') \<and>
   compile_new PostHas [Z3 (variable 1), PyGap plain_pair] = Inl (AttributeError ''model'')"
  by (simp add: compile_new_relational [OF variable_is_variable variable_is_variable base_plain])

section \<open>Properties of predicate.py\<close>

subsection \<open>Calls of _assert with one argument\<close>

lemma ModelHasRule_assert_raises:
  "\<exists>e. fst (Predicate_assert (ModelHasRule f v) m s i k) = Inl e"
  by (simp add: Let_def split: sum.splits)

lemma ModelHasRule_assert_state:
  "snd (Predicate_assert (ModelHasRule f v) m s i k) =
     (ModelHasRule f (Z3 (FreshConst k RuleSort)), Suc k)"
  by (simp add: Let_def new_rule_def split: sum.splits)

lemma PregraphHas_assert_raises:
  "\<exists>e. Predicate_assert (PregraphHas r t) m s i k = (Inl e, PregraphHas r t, k)"
  by (simp split: sum.splits)

lemma PostgraphHas_assert_raises:
  "\<exists>e. Predicate_assert (PostgraphHas r t) m s i k = (Inl e, PostgraphHas r t, k)"
  by (simp split: sum.splits)

text \<open>
  Claim C2 does not hold of the code. The claim: compiling \<^verbatim>\<open>ModelHasRule(ruleFn)\<close> gives
  the formula "there is a Rule r in the model for which the compilation of ruleFn(r)
  holds", and compiling it twice raises nothing. The code: \<^verbatim>\<open>ModelHasRule._assert\<close> calls
  \<^verbatim>\<open>self.rule_function(self.rule_variable)._assert(model)\<close> with one argument, while every
  \<^verbatim>\<open>_assert\<close> of the file takes three (And, Or and Not pass all three on). So the first
  compilation of \<^verbatim>\<open>ModelHasRule(lambda r: Top())\<close> already raises TypeError and no formula
  is produced.
\<close>

theorem ModelHasRule_compile_raises_TypeError:
  "ModelHasRule_init top_rule_function = Inr (ModelHasRule top_rule_function PyNone) \<and>
   fst (Predicate_get_predicate (ModelHasRule top_rule_function PyNone)
          model_variable PyNone PyNone 0) =
     Inl (TypeError ''_assert() takes exactly 4 arguments'')"
  by (simp add: ModelHasRule_init_def Predicate_get_predicate_def top_rule_function_def
        model_variable_def new_rule_def call_def lookup_assert_def)

subsection \<open>Validation of combinator arguments\<close>

text \<open>
  Claim C6 does not hold of the code. The claim: every combinator rejects a
  non-Predicate argument at construction. The code: And, Or and Not call
  \<^verbatim>\<open>_ensure_predicate\<close> on every argument, but the constructors of ModelHasRule, PregraphHas
  and PostgraphHas store whatever they are given. \<^verbatim>\<open>ModelHasRule(5)\<close>,
  \<^verbatim>\<open>PregraphHas(r, 5)\<close> and \<^verbatim>\<open>PostgraphHas(r, "kinase")\<close> are constructed without error, and the
  mistake surfaces only when the node is compiled.
\<close>

theorem unchecked_combinator_arguments:
  "ModelHasRule_init (PyInt 5) = Inr (ModelHasRule (PyInt 5) PyNone) \<and>
   PregraphHas_init (Z3 (FreshConst 0 RuleSort)) (PyInt 5) =
     Inr (PregraphHas (Z3 (FreshConst 0 RuleSort)) (PyInt 5)) \<and>
   PostgraphHas_init (Z3 (FreshConst 0 RuleSort)) (PyStr ''kinase'') =
     Inr (PostgraphHas (Z3 (FreshConst 0 RuleSort)) (PyStr ''kinase'')) \<and>
   fst (Predicate_get_predicate (ModelHasRule (PyInt 5) PyNone) model_variable PyNone PyNone 0) =
     Inl (TypeError ''object is not callable'') \<and>
   fst (Predicate_get_predicate (PregraphHas (Z3 (FreshConst 0 RuleSort)) (PyInt 5))
          model_variable PyNone PyNone 0) = Inl (AttributeError ''_assert'') \<and>
   fst (Predicate_get_predicate (PostgraphHas (Z3 (FreshConst 0 RuleSort)) (PyStr ''kinase''))
          model_variable PyNone PyNone 0) = Inl (AttributeError ''_assert'')"
  by (simp add: ModelHasRule_init_def PregraphHas_init_def PostgraphHas_init_def
        Predicate_get_predicate_def model_variable_def new_rule_def call_def lookup_assert_def)

lemma ensure_predicates_Inr:
  "ensure_predicates vs = Inr ps \<Longrightarrow> vs = map Pred ps"
  by (induction vs arbitrary: ps)
     (auto simp: ensure_predicate_def split: sum.splits pyval.splits)

lemma ensure_predicates_Inl:
  "ensure_predicates vs = Inl e \<Longrightarrow> e = ValueError ''Argument must be instance of Predicate.''"
  by (induction vs)
     (auto simp: ensure_predicate_def split: sum.splits pyval.splits)

subsection \<open>What compilation changes\<close>

lemma assert_erase:
  "erase (fst (snd (Predicate_assert t m s i k))) = erase t"
  "map erase (fst (snd (assert_each ps m s i k))) = map erase ps"
  by (induction t m s i k and ps m s i k rule: Predicate_assert_assert_each.induct)
     (auto simp: Let_def split: sum.splits prod.splits)

lemma assert_quantifier_free:
  "quantifier_free t \<Longrightarrow> snd (Predicate_assert t m s i k) = (t, k)"
  "list_all quantifier_free ps \<Longrightarrow> snd (assert_each ps m s i k) = (ps, k)"
  by (induction t m s i k and ps m s i k rule: Predicate_assert_assert_each.induct)
     (auto simp: Let_def split: sum.splits prod.splits)

text \<open>
  Claim C9, as amended. Compiling a tree assigns no field of any node except the
  \<^verbatim>\<open>rule_variable\<close> of ModelHasRule nodes: with those fields reset, the tree after
  compilation is the tree before. A tree in which compilation meets no ModelHasRule node
  is left exactly as it was, and so is the rule counter. Every compilation of a
  ModelHasRule node overwrites its \<^verbatim>\<open>rule_variable\<close> with the rule just allocated and
  advances the counter. (Compilation has no solver to assert into: \<^verbatim>\<open>_assert\<close> neither takes
  nor returns one.)
\<close>

theorem compile_assigns_only_rule_variable:
  "erase (fst (snd (Predicate_get_predicate t m s i k))) = erase t \<and>
   (quantifier_free t \<longrightarrow> snd (Predicate_get_predicate t m s i k) = (t, k)) \<and>
   snd (Predicate_get_predicate (ModelHasRule f v) m s i k) =
     (ModelHasRule f (Z3 (FreshConst k RuleSort)), Suc k)"
  by (simp add: Predicate_get_predicate_def assert_erase assert_quantifier_free
        ModelHasRule_assert_state del: Predicate_assert.simps)

text \<open>A tree without ModelHasRule, a tree with one, and a second compilation of a node
  that was compiled before.\<close>

theorem compile_frame_witness:
  "quantifier_free (And [Top_p, Not_p Bottom_p, PregraphHas (Z3 (FreshConst 0 RuleSort)) (Pred Top_p)]) \<and>
   snd (Predicate_get_predicate
          (And [Top_p, Not_p Bottom_p, PregraphHas (Z3 (FreshConst 0 RuleSort)) (Pred Top_p)])
          model_variable PyNone PyNone 0) =
     (And [Top_p, Not_p Bottom_p, PregraphHas (Z3 (FreshConst 0 RuleSort)) (Pred Top_p)], 0) \<and>
   erase (fst (snd (Predicate_get_predicate
          (Or [Bottom_p, ModelHasRule top_rule_function PyNone])
          model_variable PyNone PyNone 0))) =
     Or [Bottom_p, ModelHasRule top_rule_function PyNone] \<and>
   snd (Predicate_get_predicate (ModelHasRule top_rule_function (Z3 (FreshConst 0 RuleSort)))
          model_variable PyNone PyNone 1) =
     (ModelHasRule top_rule_function (Z3 (FreshConst 1 RuleSort)), 2)"
proof -
  have qf: "quantifier_free
      (And [Top_p, Not_p Bottom_p, PregraphHas (Z3 (FreshConst 0 RuleSort)) (Pred Top_p)])"
    by simp
  from qf
    compile_assigns_only_rule_variable
      [where t = "And [Top_p, Not_p Bottom_p, PregraphHas (Z3 (FreshConst 0 RuleSort)) (Pred Top_p)]"
         and m = model_variable and s = PyNone and i = PyNone and k = 0]
    compile_assigns_only_rule_variable
      [where t = "Or [Bottom_p, ModelHasRule top_rule_function PyNone]"
         and m = model_variable and s = PyNone and i = PyNone and k = 0]
    compile_assigns_only_rule_variable
      [where f = top_rule_function and v = "Z3 (FreshConst 0 RuleSort)"
         and m = model_variable and s = PyNone and i = PyNone and k = 1]
  show ?thesis by (simp add: numeral_2_eq_2)
qed

text \<open>
  Claim C9 as stated fails: nodes are not immutable. Compiling
  \<^verbatim>\<open>ModelHasRule(lambda r: Top())\<close> assigns the node's \<^verbatim>\<open>rule_variable\<close>, which was
  \<^verbatim>\<open>None\<close> after construction.
\<close>

theorem compile_overwrites_rule_variable:
  "fst (snd (Predicate_get_predicate (ModelHasRule top_rule_function PyNone)
               model_variable PyNone PyNone 0)) =
     ModelHasRule top_rule_function (Z3 (FreshConst 0 RuleSort)) \<and>
   ModelHasRule top_rule_function (Z3 (FreshConst 0 RuleSort)) \<noteq>
     ModelHasRule top_rule_function PyNone"
  by (simp add: Predicate_get_predicate_def new_rule_def Let_def split: sum.splits)

subsection \<open>Boolean trees\<close>

lemma propositional_sort: "propositional f \<Longrightarrow> sort_of f = BoolSort"
  by (cases f) simp_all

lemma to_bool_exprs_propositional:
  "list_all propositional fs \<Longrightarrow> to_bool_exprs (map Z3 fs) = Inr fs"
  by (induction fs) (simp_all add: to_bool_expr_def propositional_sort)

lemma assert_boolean_tree:
  "spec_eval t = Some b \<Longrightarrow>
     \<exists>f. Predicate_assert t m s i k = (Inr f, t, k) \<and> propositional f \<and> truth f = b"
  "spec_evals ps = Some bs \<Longrightarrow>
     \<exists>fs. assert_each ps m s i k = (Inr (map Z3 fs), ps, k) \<and>
          list_all propositional fs \<and> map truth fs = bs"
proof (induction t and ps arbitrary: b k and bs k rule: spec_eval_spec_evals.induct)
  case 1
  then show ?case by (auto simp: z3_Or_def to_bool_expr_def)
next
  case 2
  then show ?case by (auto simp: z3_And_def to_bool_expr_def)
next
  case (3 ps)
  from "3.prems" obtain bs where bs: "spec_evals ps = Some bs" and b: "b = list_all (\<lambda>b. b) bs"
    by (auto split: option.splits)
  from "3.IH" [OF bs, of k] obtain fs where
    fs: "assert_each ps m s i k = (Inr (map Z3 fs), ps, k)" "list_all propositional fs"
        "map truth fs = bs"
    by blast
  have "list_all truth fs = list_all (\<lambda>b. b) (map truth fs)"
    by (simp add: list_all_iff)
  with fs b show ?case
    by (simp add: z3_And_def to_bool_exprs_propositional)
next
  case (4 ps)
  from "4.prems" obtain bs where bs: "spec_evals ps = Some bs" and b: "b = list_ex (\<lambda>b. b) bs"
    by (auto split: option.splits)
  from "4.IH" [OF bs, of k] obtain fs where
    fs: "assert_each ps m s i k = (Inr (map Z3 fs), ps, k)" "list_all propositional fs"
        "map truth fs = bs"
    by blast
  have "list_ex truth fs = list_ex (\<lambda>b. b) (map truth fs)"
    by (simp add: list_ex_iff)
  with fs b show ?case
    by (simp add: z3_Or_def to_bool_exprs_propositional)
next
  case (5 p)
  from "5.prems" obtain c where c: "spec_eval p = Some c" and b: "b = (\<not> c)"
    by (auto split: option.splits)
  from "5.IH" [OF c, of k] obtain f where
    "Predicate_assert p m s i k = (Inr f, p, k)" "propositional f" "truth f = c"
    by blast
  with b show ?case
    by (simp add: z3_Not_def to_bool_expr_def propositional_sort)
next
  case (10 p ps)
  from "10.prems" obtain c cs where c: "spec_eval p = Some c" and cs: "spec_evals ps = Some cs"
    and bs: "bs = c # cs"
    by (auto split: option.splits)
  from "10.IH"(1) [OF c, of k] obtain f where
    f: "Predicate_assert p m s i k = (Inr f, p, k)" "propositional f" "truth f = c"
    by blast
  from "10.IH"(2) [OF c cs, of k] obtain fs where
    fs: "assert_each ps m s i k = (Inr (map Z3 fs), ps, k)" "list_all propositional fs"
        "map truth fs = cs"
    by blast
  from f fs bs show ?case
    by (intro exI [of _ "f # fs"]) simp
qed simp_all

text \<open>
  Claim C7. For every tree built only from Top, Bottom, And, Or and Not (And and Or with
  any number of sub-predicates, none included), compilation returns a formula, and with a
  decision procedure that is right about propositional formulas \<^verbatim>\<open>checkSat()\<close> returns
  Sat when the spec's direct boolean evaluation of the tree is true and Unsat when it is
  false; so it returns Sat exactly when the evaluation is true and Unsat exactly when it is
  false. The compilation is the code's; the evaluator that asserts and checks is the one
  modelled from the spec.
\<close>

theorem checkSat_matches_boolean_evaluation:
  assumes "spec_eval t = Some b" and "decides_propositional orc"
  shows "fst (checkSat orc (new_evaluator t model_var string_interner node_interner)) =
           Inr (if b then Sat else Unsat)"
proof -
  from assert_boolean_tree(1) [OF assms(1), of model_var string_interner node_interner 0]
  obtain f where
    compiled: "Predicate_assert t model_var string_interner node_interner 0 = (Inr f, t, 0)"
    and shape: "propositional f" and value_f: "truth f = b"
    by blast
  from shape have added: "solver_add (Z3 f) Solver = Inr (Solver\<lparr>assertions := [f]\<rparr>)"
    by (simp add: solver_add_def to_bool_expr_def propositional_sort Solver_def)
  from assms(2) shape have "decide orc [f] = (if truth f then Sat else Unsat)"
    by (simp add: decides_propositional_def)
  with compiled added value_f show ?thesis
    by (simp add: checkSat_def new_evaluator_def Predicate_get_predicate_def solver_check_def)
qed

lemma ground_oracle_decides: "decides_propositional ground_oracle"
  by (simp add: decides_propositional_def ground_oracle_def)

text \<open>A true tree and a false one, with the evaluating decision procedure.\<close>

theorem checkSat_boolean_witness:
  "spec_eval (And [Top_p, Not_p Bottom_p, Or [Bottom_p, Top_p], And []]) = Some True \<and>
   fst (checkSat ground_oracle
          (new_evaluator (And [Top_p, Not_p Bottom_p, Or [Bottom_p, Top_p], And []])
             model_variable PyNone PyNone)) = Inr Sat \<and>
   spec_eval (Or [Bottom_p, Not_p Top_p, Or []]) = Some False \<and>
   fst (checkSat ground_oracle
          (new_evaluator (Or [Bottom_p, Not_p Top_p, Or []]) model_variable PyNone PyNone)) =
     Inr Unsat"
proof -
  have yes: "spec_eval (And [Top_p, Not_p Bottom_p, Or [Bottom_p, Top_p], And []]) = Some True"
    by simp
  have no: "spec_eval (Or [Bottom_p, Not_p Top_p, Or []]) = Some False"
    by simp
  from checkSat_matches_boolean_evaluation [OF yes ground_oracle_decides]
       checkSat_matches_boolean_evaluation [OF no ground_oracle_decides]
       yes no
  show ?thesis by simp
qed

section \<open>Where the solver is touched\<close>

lemma class_init_pair:
  assumes "class_init c args = Inr self"
  shows "\<exists>g s. args \<noteq> [] \<and> last args = PyGap g \<and> fresh_object self g s"
proof (cases c)
  case Labeled
  with assms show ?thesis
    by (auto simp: Labeled_init_def split: list.splits sum.splits dest!: base_fresh
          intro!: fresh_setattr)
next
  case PreHas
  with assms show ?thesis
    by (auto simp: init_x_def split: list.splits sum.splits dest!: base_fresh
          intro!: fresh_setattr)
next
  case PostHas
  with assms show ?thesis
    by (auto simp: init_x_def split: list.splits sum.splits dest!: base_fresh
          intro!: fresh_setattr)
qed (use assms in \<open>auto simp: init_x_y_def split: list.splits sum.splits dest!: base_fresh
       intro!: fresh_setattr\<close>)

lemma construct_pair:
  assumes "construct c args = Inr a"
  shows "fst a = c \<and> (\<exists>g s. args \<noteq> [] \<and> last args = PyGap g \<and> fresh_object (snd a) g s)"
proof -
  from assms obtain self where "class_init c args = Inr self" "a = (c, self)"
    by (auto simp: construct_def split: sum.splits)
  with class_init_pair [of c args self] show ?thesis by simp
qed

lemma combinator_constructors:
  "And_init (map Pred ps) = Inr (And ps)"
  "Or_init (map Pred ps) = Inr (Or ps)"
  "Not_init (Pred p) = Inr (Not_p p)"
  "ModelHasRule_init f = Inr (ModelHasRule f PyNone)"
  "PregraphHas_init r t = Inr (PregraphHas r t)"
  "PostgraphHas_init r t = Inr (PostgraphHas r t)"
  "Top_init = Inr Top_p"
  "Bottom_init = Inr Bottom_p"
proof -
  have "ensure_predicates (map Pred ps) = Inr ps"
    by (induction ps) (simp_all add: ensure_predicate_def)
  then show "And_init (map Pred ps) = Inr (And ps)" "Or_init (map Pred ps) = Inr (Or ps)"
    by (simp_all add: And_init_def Or_init_def)
qed (simp_all add: Not_init_def ensure_predicate_def ModelHasRule_init_def PregraphHas_init_def
       PostgraphHas_init_def Top_init_def Bottom_init_def)

text \<open>
  Claim C5, as amended. The constructor of an atomic predicate does touch a solver: it
  creates the predicate's own solving session and hands it to the \<^verbatim>\<open>initialize\<close> of the
  graph-action pair it was given (its last argument, which it stores), so the constructed
  object holds exactly the fresh solver as that \<^verbatim>\<open>initialize\<close> left it. The constructor does
  nothing else to the solver: it adds no formula of the predicate and runs no check, and
  it leaves the evaluator unasserted with no status. \<^verbatim>\<open>get_predicate\<close> only returns a value:
  \<^verbatim>\<open>_assert_over\<close> leaves the solver holding what \<^verbatim>\<open>initialize\<close> left followed by the one
  compiled formula, and when compilation raises it raises the same exception and changes
  nothing. On an asserted evaluator \<^verbatim>\<open>check_sat\<close> and \<^verbatim>\<open>get_model\<close> change nothing. The
  constructors of the combinators return the node made of their arguments and nothing
  else, and compiling a combinator tree leaves the tree, and so whatever its nodes hold, as
  it was but for the \<^verbatim>\<open>rule_variable\<close> fields.
\<close>

theorem constructor_creates_and_initializes_the_solver:
  assumes "construct c args = Inr a"
  shows "(\<exists>(g::graphactionpair) s.
            args \<noteq> [] \<and> last args = PyGap g \<and>
            getattr (snd a) ''graphactionpair'' = Inr (PyGap g) \<and>
            initialize g Solver = Inr s \<and>
            getattr (snd a) ''solver'' = Inr (PySolver s) \<and>
            getattr (snd a) ''_status'' = Inr PyNone \<and> \<not> asserted_yet a \<and>
            (\<forall>e. get_predicate a = Inl e \<longrightarrow> assert_over orc a = (Inl e, a)) \<and>
            (\<forall>p f. get_predicate a = Inr p \<longrightarrow> to_bool_expr p = Inr f \<longrightarrow>
               getattr (snd (snd (assert_over orc a))) ''solver'' =
                 Inr (PySolver (snd (solver_check orc (s\<lparr>assertions := assertions s @ [f]\<rparr>)))))) \<and>
         (\<forall>b. asserted_yet b \<longrightarrow> snd (check_sat orc b) = b \<and> snd (get_model orc b) = b) \<and>
         (And_init (map Pred ps) = Inr (And ps) \<and> Or_init (map Pred ps) = Inr (Or ps) \<and>
          Not_init (Pred p0) = Inr (Not_p p0) \<and>
          ModelHasRule_init f0 = Inr (ModelHasRule f0 PyNone) \<and>
          PregraphHas_init r0 t0 = Inr (PregraphHas r0 t0) \<and>
          PostgraphHas_init r0 t0 = Inr (PostgraphHas r0 t0) \<and>
          Top_init = Inr Top_p \<and> Bottom_init = Inr Bottom_p) \<and>
         erase (fst (snd (Predicate_get_predicate t m si ni k))) = erase t"
proof -
  from construct_pair [OF assms(1)] obtain g s where
    a: "a = (c, snd a)" and args: "args \<noteq> []" "last args = PyGap g"
    and fresh: "fresh_object (snd a) g s"
    by (cases a) auto
  have unasserted: "\<not> asserted_yet a"
    using fresh_not_asserted [OF fresh, of c] a by simp
  have failing: "\<forall>e. get_predicate a = Inl e \<longrightarrow> assert_over orc a = (Inl e, a)"
    using fresh by (auto simp: fresh_object_def intro: assert_over_failed_compile)
  have adding: "\<forall>p f. get_predicate a = Inr p \<longrightarrow> to_bool_expr p = Inr f \<longrightarrow>
               getattr (snd (snd (assert_over orc a))) ''solver'' =
                 Inr (PySolver (snd (solver_check orc (s\<lparr>assertions := assertions s @ [f]\<rparr>))))"
  proof (intro allI impI)
    fix p f
    assume "get_predicate a = Inr p" and f: "to_bool_expr p = Inr f"
    with a have p: "get_predicate (c, snd a) = Inr p" by simp
    show "getattr (snd (snd (assert_over orc a))) ''solver'' =
                 Inr (PySolver (snd (solver_check orc (s\<lparr>assertions := assertions s @ [f]\<rparr>))))"
      using assert_over_fresh [OF fresh p f, of orc] a by (simp add: getattr_setattr)
  qed
  have cached: "\<forall>b. asserted_yet b \<longrightarrow> snd (check_sat orc b) = b \<and> snd (get_model orc b) = b"
    by (simp add: check_sat_asserted get_model_asserted)
  from fresh have made: "initialize g Solver = Inr s"
    and stored: "getattr (snd a) ''graphactionpair'' = Inr (PyGap g)"
    and session: "getattr (snd a) ''solver'' = Inr (PySolver s)"
    and status: "getattr (snd a) ''_status'' = Inr PyNone"
    by (simp_all add: fresh_object_def)
  have atomic: "\<exists>(g::graphactionpair) s.
            args \<noteq> [] \<and> last args = PyGap g \<and>
            getattr (snd a) ''graphactionpair'' = Inr (PyGap g) \<and>
            initialize g Solver = Inr s \<and>
            getattr (snd a) ''solver'' = Inr (PySolver s) \<and>
            getattr (snd a) ''_status'' = Inr PyNone \<and> \<not> asserted_yet a \<and>
            (\<forall>e. get_predicate a = Inl e \<longrightarrow> assert_over orc a = (Inl e, a)) \<and>
            (\<forall>p f. get_predicate a = Inr p \<longrightarrow> to_bool_expr p = Inr f \<longrightarrow>
               getattr (snd (snd (assert_over orc a))) ''solver'' =
                 Inr (PySolver (snd (solver_check orc (s\<lparr>assertions := assertions s @ [f]\<rparr>)))))"
    by (intro exI [of _ g] exI [of _ s] conjI)
      (rule args stored made session status unasserted failing adding)+
  have nodes: "And_init (map Pred ps) = Inr (And ps) \<and> Or_init (map Pred ps) = Inr (Or ps) \<and>
          Not_init (Pred p0) = Inr (Not_p p0) \<and>
          ModelHasRule_init f0 = Inr (ModelHasRule f0 PyNone) \<and>
          PregraphHas_init r0 t0 = Inr (PregraphHas r0 t0) \<and>
          PostgraphHas_init r0 t0 = Inr (PostgraphHas r0 t0) \<and>
          Top_init = Inr Top_p \<and> Bottom_init = Inr Bottom_p"
    by (simp add: combinator_constructors)
  have frame: "erase (fst (snd (Predicate_get_predicate t m si ni k))) = erase t"
    by (simp add: Predicate_get_predicate_def assert_erase del: Predicate_assert.simps)
  show ?thesis
    by (rule conjI [OF atomic conjI [OF cached conjI [OF nodes frame]]])
qed

lemma top_made: "construct Top [PyGap plain_pair] = Inr top_object"
  by (simp add: construct_def AtomicPredicate_init_def plain_pair_def top_object_def setattr_def)

text \<open>\<^verbatim>\<open>Top(plain_pair)\<close> and \<^verbatim>\<open>Add(plain_pair)\<close> with the evaluating decision procedure.\<close>

theorem constructor_solver_witness:
  "construct Top [PyGap plain_pair] = Inr top_object \<and>
   [PyGap plain_pair] \<noteq> [] \<and> last [PyGap plain_pair] = PyGap plain_pair \<and>
   initialize plain_pair Solver = Inr Solver \<and>
   getattr (snd top_object) ''solver'' = Inr (PySolver Solver) \<and>
   \<not> asserted_yet top_object \<and>
   get_predicate top_object = Inr (PyBool True) \<and>
   to_bool_expr (PyBool True) = Inr (BoolVal True) \<and>
   getattr (snd (snd (assert_over ground_oracle top_object))) ''solver'' =
     Inr (PySolver \<lparr>assertions = [BoolVal True], last_check = Some Sat, last_model = Some []\<rparr>) \<and>
   asserted_yet (snd (check_sat ground_oracle top_object)) \<and>
   snd (check_sat ground_oracle (snd (check_sat ground_oracle top_object))) =
     snd (check_sat ground_oracle top_object) \<and>
   snd (get_model ground_oracle (snd (check_sat ground_oracle top_object))) =
     snd (check_sat ground_oracle top_object) \<and>
   get_predicate add_object =
     Inl (NotImplementedError ''Implement get_predicate in subclasses.'') \<and>
   assert_over ground_oracle add_object =
     (Inl (NotImplementedError ''Implement get_predicate in subclasses.''), add_object)"
proof -
  have init: "initialize plain_pair Solver = Inr Solver" by (simp add: plain_pair_def)
  have compiled: "get_predicate top_object = Inr (PyBool True)"
    by (simp add: top_object_def)
  have formula: "to_bool_expr (PyBool True) = Inr (BoolVal True)"
    by (simp add: to_bool_expr_def)
  have session: "getattr (snd top_object) ''solver'' = Inr (PySolver Solver)"
    by (simp add: top_object_def getattr_def)
  have fresh: "fresh_object (snd top_object) plain_pair Solver"
    by (simp add: fresh_object_def top_object_def getattr_def plain_pair_def)
  have top: "top_object = (Top, snd top_object)" by (simp add: top_object_def)
  have flag: "asserted_yet (snd (check_sat ground_oracle top_object))"
    using check_sat_fresh [OF fresh, of Top "PyBool True" "BoolVal True" ground_oracle]
      compiled formula top
    by (simp add: asserted_yet_def getattr_setattr)
  have refused: "get_predicate add_object =
      Inl (NotImplementedError ''Implement get_predicate in subclasses.'')"
    by (simp add: add_object_def)
  note main = constructor_creates_and_initializes_the_solver [OF top_made, of ground_oracle]
  from main obtain g :: graphactionpair and s where
    gs: "last [PyGap plain_pair] = PyGap g" "initialize g Solver = Inr s"
        "getattr (snd top_object) ''solver'' = Inr (PySolver s)"
    and unasserted: "\<not> asserted_yet top_object"
    and adding: "\<forall>p f. get_predicate top_object = Inr p \<longrightarrow> to_bool_expr p = Inr f \<longrightarrow>
               getattr (snd (snd (assert_over ground_oracle top_object))) ''solver'' =
                 Inr (PySolver (snd (solver_check ground_oracle
                        (s\<lparr>assertions := assertions s @ [f]\<rparr>))))"
    by blast
  from gs session have s: "s = Solver" by simp
  from adding compiled formula s
  have added: "getattr (snd (snd (assert_over ground_oracle top_object))) ''solver'' =
     Inr (PySolver \<lparr>assertions = [BoolVal True], last_check = Some Sat, last_model = Some []\<rparr>)"
    by (simp add: solver_check_def Solver_def ground_oracle_def)
  from main flag
  have kept: "snd (check_sat ground_oracle (snd (check_sat ground_oracle top_object))) =
          snd (check_sat ground_oracle top_object) \<and>
        snd (get_model ground_oracle (snd (check_sat ground_oracle top_object))) =
          snd (check_sat ground_oracle top_object)"
    by blast
  from constructor_creates_and_initializes_the_solver [OF add_made, of ground_oracle] refused
  have raised: "assert_over ground_oracle add_object =
     (Inl (NotImplementedError ''Implement get_predicate in subclasses.''), add_object)"
    by blast
  from top_made init session unasserted compiled formula added flag kept refused raised
  show ?thesis by simp
qed

text \<open>
  Claim C5 as stated fails: constructing \<^verbatim>\<open>Top(axiom_pair)\<close> creates a solver and, through
  \<^verbatim>\<open>initialize\<close>, already asserts into it. The object comes back holding a session with one
  formula in it before any compile, assert or check was asked for.
\<close>

theorem constructor_of_Top_opens_a_session:
  "construct Top [PyGap axiom_pair] =
     Inr (Top,
          [(''solver'',
            PySolver \<lparr>assertions = [node_formula], last_check = None, last_model = None\<rparr>),
           (''graphactionpair'', PyGap axiom_pair),
           (''interpretation'', Z3Func ''interpretation'' [VariableSort] IdentifierSort),
           (''_asserted_yet'', PyBool False), (''_status'', PyNone)])"
  by (simp add: construct_def AtomicPredicate_init_def axiom_pair_def setattr_def Solver_def
        solver_add_def to_bool_expr_def node_formula_def)

section \<open>Equal\<close>

text \<open>
  \<^verbatim>\<open>z3_accessor\<close> reads the integer out of a literal \<^verbatim>\<open>Variable.variable(n)\<close>: the literal is
  an application with the numeral as its child. A declared constant has no children.
\<close>

lemma z3_accessor_variable:
  "z3_accessor Variable_get_varname (Z3 (variable n)) = Inr n"
  by (simp add: z3_accessor_def Variable_get_varname_def variable_def call_def index0_def
        as_long_def)

lemma z3_accessor_constant:
  "z3_accessor Variable_get_varname (Z3 (Const x VariableSort)) =
     Inl (IndexError ''list index out of range'')"
  by (simp add: z3_accessor_def Variable_get_varname_def call_def index0_def)

lemma Equal_of_literals:
  assumes "construct Equal [Z3 (variable n), Z3 (variable k), PyGap g] = Inr a"
  shows "get_predicate a = Inr (PyBool (n = k))"
proof -
  have two: "Equal \<in> set two_variable_classes" by (simp add: two_variable_classes_def)
  from assms obtain self where
    base: "AtomicPredicate_init [] [PyGap g] = Inr self"
    by (auto simp: construct_def init_x_y_def split: sum.splits)
  from construct_x_y [OF two variable_is_variable variable_is_variable base, of n k] assms
  have "a = (Equal, setattr (setattr self ''x'' (Z3 (variable n))) ''y'' (Z3 (variable k)))"
    by simp
  then show ?thesis
    by (simp add: getattr_setattr z3_accessor_variable)
qed

lemma Equal_of_constant:
  assumes "construct Equal [Z3 (Const x VariableSort), y, PyGap g] = Inr a"
  shows "get_predicate a = Inl (IndexError ''list index out of range'')"
proof -
  from assms obtain self where
    "a = (Equal, setattr (setattr self ''x'' (Z3 (Const x VariableSort))) ''y'' y)"
    by (auto simp: construct_def init_x_y_def split: sum.splits)
  then show ?thesis
    by (simp add: getattr_setattr z3_accessor_constant)
qed

text \<open>
  Claim C8 does not hold of the code. The claim: \<^verbatim>\<open>Equal(x, x)\<close> is SAT for every Variable
  \<open>x\<close> and every model. The docstring of \<^verbatim>\<open>Equal\<close> shows the variables it is meant for,
  \<^verbatim>\<open>(declare-const x Variable)\<close>, and \<^verbatim>\<open>ensure_variable\<close> accepts such a constant. The code:
  \<^verbatim>\<open>get_predicate\<close> reads the tag with \<^verbatim>\<open>z3_accessor\<close>, which indexes the children of \<open>x\<close>;
  a declared constant has none, so compiling \<^verbatim>\<open>Equal(x, x, plain_pair)\<close> raises IndexError
  and \<^verbatim>\<open>check_sat()\<close> raises with it instead of returning SAT.
\<close>

theorem Equal_of_declared_constant_raises_IndexError:
  "is_variable (Z3 declared_x) \<and>
   construct Equal [Z3 declared_x, Z3 declared_x, PyGap plain_pair] = Inr equal_object \<and>
   get_predicate equal_object = Inl (IndexError ''list index out of range'') \<and>
   check_sat ground_oracle equal_object =
     (Inl (IndexError ''list index out of range''), equal_object)"
  by (simp add: is_variable_def declared_x_def construct_def init_x_y_def
        AtomicPredicate_init_def plain_pair_def equal_object_def setattr_def
        ensure_variable_def sort_method_def z3_accessor_def Variable_get_varname_def call_def
        index0_def getattr_def check_sat_def assert_over_def method_of_solver_def)

text \<open>
  The second half of the claim, \<^verbatim>\<open>And(Equal(x, y), Not(Equal(x, y)))\<close>, cannot be built from
  these classes either: \<^verbatim>\<open>Equal\<close> is an \<^verbatim>\<open>AtomicPredicate\<close>, and \<^verbatim>\<open>Not\<close> and \<^verbatim>\<open>And\<close> refuse
  whatever is not a \<^verbatim>\<open>Predicate\<close>.
\<close>

lemma ensure_predicate_atomic:
  "ensure_predicate (as_value a) = Inl (ValueError ''Argument must be instance of Predicate.'')"
  by (simp add: ensure_predicate_def as_value_def)

lemma combinators_reject_atomic_predicates:
  "Not_init (as_value a) = Inl (ValueError ''Argument must be instance of Predicate.'')"
  "And_init (as_value a # rest) = Inl (ValueError ''Argument must be instance of Predicate.'')"
  by (simp_all add: Not_init_def And_init_def ensure_predicate_atomic)

end
